theory Spec2Isabelle
  imports Complex_Main
begin

section \<open>The diagonal-noise stochastic Runge--Kutta step of torchsde (srk.py)\<close>

text \<open>
  The theory embeds \<^verbatim>\<open>src/torchsde/core/methods/diagonal/srk.py\<close>: the constructor of
  \<^verbatim>\<open>SRKDiagonal\<close>, its method \<^verbatim>\<open>step\<close> and its property \<^verbatim>\<open>strong_order\<close>.

  Conventions of the embedding.
  \<^item> A state is a Python tuple of tensors, one per block. Every operation of \<^verbatim>\<open>step\<close> on a
    block acts entrywise, so a block is modelled by one entry, a \<^typ>\<open>real\<close>, and a state by
    a \<^typ>\<open>real list\<close>. Floating-point rounding, NaN and infinities are not modelled: the
    arithmetic is that of the reals. The one property that real arithmetic decides
    differently from the machine (C6: a product with zero vanishes) is stated on a second
    embedding of \<^verbatim>\<open>step\<close>, in an arithmetic with overflow, infinities and NaN.
  \<^item> A generator over \<^verbatim>\<open>zip(...)\<close> is a \<^const>\<open>map\<close> over nested \<^const>\<open>zip\<close>s, which stops
    at the shortest argument as Python's \<^verbatim>\<open>zip\<close> does.
  \<^item> \<^verbatim>\<open>assert\<close> and an out-of-range tuple index are results \<^term>\<open>Inl e\<close> of a sum type.
  \<^item> \<^verbatim>\<open>x ** 2.\<close> and \<^verbatim>\<open>x ** 3.\<close> on a tensor are the square and the cube of each entry.
  \<^item> \<^verbatim>\<open>for s in range(STAGES)\<close> and \<^verbatim>\<open>for j in range(s)\<close> are \<^const>\<open>fold\<close>s over
    \<^term>\<open>[0..<n]\<close>; the loop variables are the components of the folded state.
  \<^item> A loop variable the source writes with a trailing underscore (\<^verbatim>\<open>f_eval_\<close>) carries a
    prime here (\<open>f_eval'\<close>).
  \<^item> The calls \<^verbatim>\<open>step\<close> makes to its collaborators (the Brownian path, the random source,
    the drift and the diffusion) are recorded, in the order the interpreter makes them, in
    a list of calls returned beside the result.
\<close>

subsection \<open>Data\<close>

datatype error = AssertionError | IndexError

datatype call =
    Call_bm real
  | Call_compute_trapezoidal_approx real "real list" real real
  | Call_randn_like
  | Call_f real "real list"
  | Call_g real "real list"

text \<open>
  Modelled from the spec: the module \<^verbatim>\<open>torchsde.core.methods.tableaus.srid2\<close> is not among
  the sources. Section 4.1 of the specification says it exposes the stage count
  \<^verbatim>\<open>STAGES\<close>, the node offsets \<^verbatim>\<open>C0, C1\<close> and the output weights
  \<^verbatim>\<open>alpha, beta1, ..., beta4\<close> (one entry per stage) and the matrices \<^verbatim>\<open>A0, A1, B0, B1\<close> (an
  entry for every \<^verbatim>\<open>j < s < STAGES\<close>). The tableau is a parameter of the model, its tables
  given as lookup functions: \<^verbatim>\<open>C0[j]\<close> is \<^term>\<open>C0 T j\<close> and \<^verbatim>\<open>A0[s][j]\<close> is \<^term>\<open>A0 T s j\<close>.
  \<^verbatim>\<open>step\<close> looks the tables up at \<^verbatim>\<open>j < s < STAGES\<close> only.
\<close>

record tableau =
  STAGES :: nat
  C0 :: "nat \<Rightarrow> real"
  C1 :: "nat \<Rightarrow> real"
  A0 :: "nat \<Rightarrow> nat \<Rightarrow> real"
  A1 :: "nat \<Rightarrow> nat \<Rightarrow> real"
  B0 :: "nat \<Rightarrow> nat \<Rightarrow> real"
  B1 :: "nat \<Rightarrow> nat \<Rightarrow> real"
  alpha :: "nat \<Rightarrow> real"
  beta1 :: "nat \<Rightarrow> real"
  beta2 :: "nat \<Rightarrow> real"
  beta3 :: "nat \<Rightarrow> real"
  beta4 :: "nat \<Rightarrow> real"

text \<open>
  Modelled from the spec: \<^verbatim>\<open>utils.compute_trapezoidal_approx\<close> is not among the sources.
  Sections 4.2 and 6 of the specification describe it as a query on the Brownian
  collaborator that takes \<^verbatim>\<open>(t0, y0, dt, sqrt_dt)\<close>, evaluates the path inside the step and
  returns one approximation per block, reproducible when the path is. It is a parameter of
  the model: a function of the path and of these four arguments.
\<close>

type_synonym trapezoidal_fn =
  "(real \<Rightarrow> real list) \<Rightarrow> real \<Rightarrow> real list \<Rightarrow> real \<Rightarrow> real \<Rightarrow> real list"

text \<open>
  The fields of \<^verbatim>\<open>self\<close> that \<^verbatim>\<open>step\<close> reads: the drift \<^verbatim>\<open>self.sde.f\<close>, the diffusion
  \<^verbatim>\<open>self.sde.g\<close>, the Brownian path \<^verbatim>\<open>self.bm\<close> and the flag set by the constructor.
\<close>

record SRKDiagonal =
  sde_f :: "real \<Rightarrow> real list \<Rightarrow> real list"
  sde_g :: "real \<Rightarrow> real list \<Rightarrow> real list"
  bm :: "real \<Rightarrow> real list"
  trapezoidal_approx :: bool

subsection \<open>The constructor\<close>

text \<open>
  \<^verbatim>\<open>__init__\<close> hands its arguments to the base class, which keeps \<^verbatim>\<open>options\<close> as
  \<^verbatim>\<open>self.options\<close>, and then sets the flag: false when the key is present with a false
  value, true otherwise. The dictionary is a map from keys to truth values.
\<close>

definition init ::
  "(real \<Rightarrow> real list \<Rightarrow> real list) \<Rightarrow> (real \<Rightarrow> real list \<Rightarrow> real list) \<Rightarrow>
   (real \<Rightarrow> real list) \<Rightarrow> (string \<rightharpoonup> bool) \<Rightarrow> SRKDiagonal" where
  "init f g W options =
     \<lparr> sde_f = f, sde_g = g, bm = W,
       trapezoidal_approx =
         (case options ''trapezoidal_approx'' of
            Some v \<Rightarrow> (if \<not> v then False else True)
          | None \<Rightarrow> True) \<rparr>"

subsection \<open>The stochastic integrals of one step\<close>

text \<open>
  The block under \<^verbatim>\<open>torch.no_grad()\<close>. \<^verbatim>\<open>zip\<close> evaluates \<^verbatim>\<open>self.bm(t0 + dt)\<close> before
  \<^verbatim>\<open>self.bm(t0)\<close>; the generator evaluates \<^verbatim>\<open>y0[0]\<close> for each pair, which raises on an empty
  \<^verbatim>\<open>y0\<close> as soon as there is one pair. The argument \<open>randn\<close> gives the values
  \<^verbatim>\<open>torch.randn_like\<close> draws, in the order of the draws.
\<close>

definition stochastic_integrals ::
  "trapezoidal_fn \<Rightarrow> (nat \<Rightarrow> real) \<Rightarrow> SRKDiagonal \<Rightarrow> real \<Rightarrow> real list \<Rightarrow> real \<Rightarrow> real \<Rightarrow>
   call list \<times> (error + real list \<times> real list \<times> real list \<times> real list)" where
  "stochastic_integrals compute_trapezoidal_approx randn self t0 y0 dt sqrt_dt =
     (let bm_pairs = zip (bm self (t0 + dt)) (bm self t0);
          tr = [Call_bm (t0 + dt), Call_bm t0]
      in if bm_pairs \<noteq> [] \<and> y0 = [] then (tr, Inl IndexError)
         else
           let I_k = map (\<lambda>(bm_next, bm_cur). bm_next - bm_cur) bm_pairs;
               I_kk = map (\<lambda>delta_bm'. (delta_bm' ^ 2 - dt) / 2) I_k;
               (I_k0, tr) =
                 (if trapezoidal_approx self
                  then (compute_trapezoidal_approx (bm self) t0 y0 dt sqrt_dt,
                        tr @ [Call_compute_trapezoidal_approx t0 y0 dt sqrt_dt])
                  else (map (\<lambda>(k, delta_bm'). dt / 2 * (delta_bm' + randn k * sqrt_dt / sqrt 3))
                          (enumerate 0 I_k),
                        tr @ replicate (length I_k) Call_randn_like));
               I_kkk = map (\<lambda>delta_bm'. (delta_bm' ^ 3 - 3 * dt * delta_bm') / 6) I_k
           in (tr, Inr (I_k, I_kk, I_k0, I_kkk)))"

subsection \<open>The stages\<close>

text \<open>The body of \<^verbatim>\<open>for j in range(s)\<close>, on the accumulators \<^verbatim>\<open>H0s, H1s\<close>.\<close>

definition accumulate ::
  "tableau \<Rightarrow> SRKDiagonal \<Rightarrow> real \<Rightarrow> real \<Rightarrow> real \<Rightarrow> real list \<Rightarrow>
   real list list \<Rightarrow> real list list \<Rightarrow> nat \<Rightarrow> nat \<Rightarrow>
   real list \<times> real list \<times> call list \<Rightarrow> real list \<times> real list \<times> call list" where
  "accumulate T self t0 dt sqrt_dt I_k0 H0 H1 s j = (\<lambda>(H0s, H1s, tr).
     (let f_eval = sde_f self (t0 + C0 T j * dt) (H0 ! j);
          g_eval = sde_g self (t0 + C1 T j * dt) (H1 ! j)
      in (map (\<lambda>(H0s', f_eval', g_eval', I_k0').
                 H0s' + A0 T s j * f_eval' * dt + B0 T s j * g_eval' * I_k0' / dt)
            (zip H0s (zip f_eval (zip g_eval I_k0))),
          map (\<lambda>(H1s', f_eval', g_eval').
                 H1s' + A1 T s j * f_eval' * dt + B1 T s j * g_eval' * sqrt_dt)
            (zip H1s (zip f_eval g_eval)),
          tr @ [Call_f (t0 + C0 T j * dt) (H0 ! j), Call_g (t0 + C1 T j * dt) (H1 ! j)])))"

text \<open>The body of \<^verbatim>\<open>for s in range(STAGES)\<close>, on \<^verbatim>\<open>H0, H1, y1\<close>.\<close>

definition stage ::
  "tableau \<Rightarrow> SRKDiagonal \<Rightarrow> real \<Rightarrow> real list \<Rightarrow> real \<Rightarrow> real \<Rightarrow>
   real list \<Rightarrow> real list \<Rightarrow> real list \<Rightarrow> real list \<Rightarrow> nat \<Rightarrow>
   real list list \<times> real list list \<times> real list \<times> call list \<Rightarrow>
   real list list \<times> real list list \<times> real list \<times> call list" where
  "stage T self t0 y0 dt sqrt_dt I_k I_kk I_k0 I_kkk s = (\<lambda>(H0, H1, y1, tr).
     (let (H0s, H1s, tr) =
            fold (accumulate T self t0 dt sqrt_dt I_k0 H0 H1 s) [0..<s] (y0, y0, tr);
          f_eval = sde_f self (t0 + C0 T s * dt) H0s;
          g_eval = sde_g self (t0 + C1 T s * dt) H1s;
          g_weight =
            map (\<lambda>(I_k', I_kk', I_k0', I_kkk').
                   beta1 T s * I_k' + beta2 T s * I_kk' / sqrt_dt
                   + beta3 T s * I_k0' / dt + beta4 T s * I_kkk' / dt)
              (zip I_k (zip I_kk (zip I_k0 I_kkk)))
      in (H0 @ [H0s], H1 @ [H1s],
          map (\<lambda>(y1', f_eval', g_eval', g_weight').
                 y1' + alpha T s * f_eval' * dt + g_weight' * g_eval')
            (zip y1 (zip f_eval (zip g_eval g_weight))),
          tr @ [Call_f (t0 + C0 T s * dt) H0s, Call_g (t0 + C1 T s * dt) H1s])))"

text \<open>The whole loop, from empty \<^verbatim>\<open>H0, H1\<close> and \<^verbatim>\<open>y1 = y0\<close>.\<close>

definition stages ::
  "tableau \<Rightarrow> SRKDiagonal \<Rightarrow> real \<Rightarrow> real list \<Rightarrow> real \<Rightarrow> real \<Rightarrow>
   real list \<Rightarrow> real list \<Rightarrow> real list \<Rightarrow> real list \<Rightarrow> call list \<Rightarrow>
   real list list \<times> real list list \<times> real list \<times> call list" where
  "stages T self t0 y0 dt sqrt_dt I_k I_kk I_k0 I_kkk tr =
     fold (stage T self t0 y0 dt sqrt_dt I_k I_kk I_k0 I_kkk) [0..<STAGES T] ([], [], y0, tr)"

subsection \<open>The step\<close>

definition step ::
  "tableau \<Rightarrow> trapezoidal_fn \<Rightarrow> (nat \<Rightarrow> real) \<Rightarrow> SRKDiagonal \<Rightarrow> real \<Rightarrow> real list \<Rightarrow> real \<Rightarrow>
   call list \<times> (error + real \<times> real list)" where
  "step T compute_trapezoidal_approx randn self t0 y0 dt =
     (if \<not> dt > 0 then ([], Inl AssertionError)
      else
        let sqrt_dt = sqrt dt in
        case stochastic_integrals compute_trapezoidal_approx randn self t0 y0 dt sqrt_dt of
          (tr, Inl e) \<Rightarrow> (tr, Inl e)
        | (tr, Inr (I_k, I_kk, I_k0, I_kkk)) \<Rightarrow>
            (let t1 = t0 + dt;
                 (H0, H1, y1, tr) = stages T self t0 y0 dt sqrt_dt I_k I_kk I_k0 I_kkk tr
             in (tr, Inr (t1, y1))))"

definition strong_order :: "SRKDiagonal \<Rightarrow> real" where
  "strong_order self = 1.5"

subsection \<open>Counting evaluations, and the variant that keeps them\<close>

text \<open>The number of calls of the drift and of the diffusion in a list of calls.\<close>

definition f_calls :: "call list \<Rightarrow> nat" where
  "f_calls tr = length (filter (\<lambda>c. case c of Call_f t y \<Rightarrow> True | _ \<Rightarrow> False) tr)"

definition g_calls :: "call list \<Rightarrow> nat" where
  "g_calls tr = length (filter (\<lambda>c. case c of Call_g t y \<Rightarrow> True | _ \<Rightarrow> False) tr)"

text \<open>
  The variant of \<^verbatim>\<open>step\<close> that C9 compares it with, written from the words of the claim:
  every stage evaluates the drift and the diffusion once, at its own stage values, and
  appends the two results to the lists \<open>F\<close> and \<open>G\<close>; the inner loop reads \<open>F[j]\<close> and
  \<open>G[j]\<close> where \<^verbatim>\<open>step\<close> evaluates again. Everything else is as in \<^verbatim>\<open>step\<close>.
\<close>

definition accumulate_cached ::
  "tableau \<Rightarrow> real \<Rightarrow> real \<Rightarrow> real list \<Rightarrow> real list list \<Rightarrow> real list list \<Rightarrow> nat \<Rightarrow> nat \<Rightarrow>
   real list \<times> real list \<Rightarrow> real list \<times> real list" where
  "accumulate_cached T dt sqrt_dt I_k0 F G s j = (\<lambda>(H0s, H1s).
     (let f_eval = F ! j;
          g_eval = G ! j
      in (map (\<lambda>(H0s', f_eval', g_eval', I_k0').
                 H0s' + A0 T s j * f_eval' * dt + B0 T s j * g_eval' * I_k0' / dt)
            (zip H0s (zip f_eval (zip g_eval I_k0))),
          map (\<lambda>(H1s', f_eval', g_eval').
                 H1s' + A1 T s j * f_eval' * dt + B1 T s j * g_eval' * sqrt_dt)
            (zip H1s (zip f_eval g_eval)))))"

definition stage_cached ::
  "tableau \<Rightarrow> SRKDiagonal \<Rightarrow> real \<Rightarrow> real list \<Rightarrow> real \<Rightarrow> real \<Rightarrow>
   real list \<Rightarrow> real list \<Rightarrow> real list \<Rightarrow> real list \<Rightarrow> nat \<Rightarrow>
   real list list \<times> real list list \<times> real list \<times> call list \<Rightarrow>
   real list list \<times> real list list \<times> real list \<times> call list" where
  "stage_cached T self t0 y0 dt sqrt_dt I_k I_kk I_k0 I_kkk s = (\<lambda>(F, G, y1, tr).
     (let (H0s, H1s) = fold (accumulate_cached T dt sqrt_dt I_k0 F G s) [0..<s] (y0, y0);
          f_eval = sde_f self (t0 + C0 T s * dt) H0s;
          g_eval = sde_g self (t0 + C1 T s * dt) H1s;
          g_weight =
            map (\<lambda>(I_k', I_kk', I_k0', I_kkk').
                   beta1 T s * I_k' + beta2 T s * I_kk' / sqrt_dt
                   + beta3 T s * I_k0' / dt + beta4 T s * I_kkk' / dt)
              (zip I_k (zip I_kk (zip I_k0 I_kkk)))
      in (F @ [f_eval], G @ [g_eval],
          map (\<lambda>(y1', f_eval', g_eval', g_weight').
                 y1' + alpha T s * f_eval' * dt + g_weight' * g_eval')
            (zip y1 (zip f_eval (zip g_eval g_weight))),
          tr @ [Call_f (t0 + C0 T s * dt) H0s, Call_g (t0 + C1 T s * dt) H1s])))"

definition stages_cached ::
  "tableau \<Rightarrow> SRKDiagonal \<Rightarrow> real \<Rightarrow> real list \<Rightarrow> real \<Rightarrow> real \<Rightarrow>
   real list \<Rightarrow> real list \<Rightarrow> real list \<Rightarrow> real list \<Rightarrow> call list \<Rightarrow>
   real list list \<times> real list list \<times> real list \<times> call list" where
  "stages_cached T self t0 y0 dt sqrt_dt I_k I_kk I_k0 I_kkk tr =
     fold (stage_cached T self t0 y0 dt sqrt_dt I_k I_kk I_k0 I_kkk) [0..<STAGES T] ([], [], y0, tr)"

definition step_cached ::
  "tableau \<Rightarrow> trapezoidal_fn \<Rightarrow> (nat \<Rightarrow> real) \<Rightarrow> SRKDiagonal \<Rightarrow> real \<Rightarrow> real list \<Rightarrow> real \<Rightarrow>
   call list \<times> (error + real \<times> real list)" where
  "step_cached T compute_trapezoidal_approx randn self t0 y0 dt =
     (if \<not> dt > 0 then ([], Inl AssertionError)
      else
        let sqrt_dt = sqrt dt in
        case stochastic_integrals compute_trapezoidal_approx randn self t0 y0 dt sqrt_dt of
          (tr, Inl e) \<Rightarrow> (tr, Inl e)
        | (tr, Inr (I_k, I_kk, I_k0, I_kkk)) \<Rightarrow>
            (let t1 = t0 + dt;
                 (F, G, y1, tr) = stages_cached T self t0 y0 dt sqrt_dt I_k I_kk I_k0 I_kkk tr
             in (tr, Inr (t1, y1))))"

subsection \<open>The step in an arithmetic with overflow, infinities and NaN\<close>

text \<open>
  A tensor entry is a finite real, an infinity or NaN. A finite result is not rounded, and
  a result beyond the largest finite value \<open>M\<close> of the tensor type becomes an infinity;
  infinities and NaN combine as in IEEE 754 (\<open>inf - inf\<close>, \<open>0 * inf\<close>, \<open>0 / 0\<close> and
  \<open>inf / inf\<close> are NaN, NaN propagates). Signed zeros and underflow are not modelled.
  Python scalars (\<open>t0\<close>, \<open>dt\<close>, \<open>sqrt_dt\<close>, the tableau) are finite reals.
\<close>

datatype fl = Fin real | PInf | NInf | NaN

definition rnd :: "real \<Rightarrow> real \<Rightarrow> fl" where
  "rnd M x = (if x > M then PInf else if x < - M then NInf else Fin x)"


fun fl_neg :: "fl \<Rightarrow> fl" where
  "fl_neg (Fin x) = Fin (- x)"
| "fl_neg PInf = NInf"
| "fl_neg NInf = PInf"
| "fl_neg NaN = NaN"

fun fl_add :: "real \<Rightarrow> fl \<Rightarrow> fl \<Rightarrow> fl" where
  "fl_add M (Fin x) (Fin y) = rnd M (x + y)"
| "fl_add M NaN b = NaN"
| "fl_add M a NaN = NaN"
| "fl_add M PInf NInf = NaN"
| "fl_add M NInf PInf = NaN"
| "fl_add M PInf b = PInf"
| "fl_add M a PInf = PInf"
| "fl_add M NInf b = NInf"
| "fl_add M a NInf = NInf"

definition fl_sub :: "real \<Rightarrow> fl \<Rightarrow> fl \<Rightarrow> fl" where
  "fl_sub M a b = fl_add M a (fl_neg b)"

fun fl_mul :: "real \<Rightarrow> fl \<Rightarrow> fl \<Rightarrow> fl" where
  "fl_mul M (Fin x) (Fin y) = rnd M (x * y)"
| "fl_mul M NaN b = NaN"
| "fl_mul M a NaN = NaN"
| "fl_mul M PInf (Fin y) = (if y = 0 then NaN else if 0 < y then PInf else NInf)"
| "fl_mul M NInf (Fin y) = (if y = 0 then NaN else if 0 < y then NInf else PInf)"
| "fl_mul M (Fin x) PInf = (if x = 0 then NaN else if 0 < x then PInf else NInf)"
| "fl_mul M (Fin x) NInf = (if x = 0 then NaN else if 0 < x then NInf else PInf)"
| "fl_mul M PInf PInf = PInf"
| "fl_mul M PInf NInf = NInf"
| "fl_mul M NInf PInf = NInf"
| "fl_mul M NInf NInf = PInf"

fun fl_div :: "real \<Rightarrow> fl \<Rightarrow> fl \<Rightarrow> fl" where
  "fl_div M (Fin x) (Fin y) =
     (if y = 0 then (if x = 0 then NaN else if 0 < x then PInf else NInf) else rnd M (x / y))"
| "fl_div M NaN b = NaN"
| "fl_div M a NaN = NaN"
| "fl_div M (Fin x) PInf = Fin 0"
| "fl_div M (Fin x) NInf = Fin 0"
| "fl_div M PInf (Fin y) = (if 0 \<le> y then PInf else NInf)"
| "fl_div M NInf (Fin y) = (if 0 \<le> y then NInf else PInf)"
| "fl_div M PInf PInf = NaN"
| "fl_div M PInf NInf = NaN"
| "fl_div M NInf PInf = NaN"
| "fl_div M NInf NInf = NaN"

text \<open>
  \<^verbatim>\<open>step\<close> again, line by line as above, with every tensor operation in this arithmetic:
  \<^verbatim>\<open>a + b * c / d\<close> is \<open>fl_add a (fl_div (fl_mul b c) d)\<close>, in Python's order of evaluation,
  and \<^verbatim>\<open>x ** 2.\<close>, \<^verbatim>\<open>x ** 3.\<close> are products. The calls are not recorded here.
\<close>

record SRKDiagonal_fl =
  fl_sde_f :: "real \<Rightarrow> fl list \<Rightarrow> fl list"
  fl_sde_g :: "real \<Rightarrow> fl list \<Rightarrow> fl list"
  fl_bm :: "real \<Rightarrow> fl list"
  fl_trapezoidal_approx :: bool

type_synonym trapezoidal_fn_fl =
  "(real \<Rightarrow> fl list) \<Rightarrow> real \<Rightarrow> fl list \<Rightarrow> real \<Rightarrow> real \<Rightarrow> fl list"

definition stochastic_integrals_fl ::
  "real \<Rightarrow> trapezoidal_fn_fl \<Rightarrow> (nat \<Rightarrow> fl) \<Rightarrow> SRKDiagonal_fl \<Rightarrow> real \<Rightarrow> fl list \<Rightarrow> real \<Rightarrow> real \<Rightarrow>
   error + fl list \<times> fl list \<times> fl list \<times> fl list" where
  "stochastic_integrals_fl M compute_trapezoidal_approx randn self t0 y0 dt sqrt_dt =
     (let bm_pairs = zip (fl_bm self (t0 + dt)) (fl_bm self t0)
      in if bm_pairs \<noteq> [] \<and> y0 = [] then Inl IndexError
         else
           let I_k = map (\<lambda>(bm_next, bm_cur). fl_sub M bm_next bm_cur) bm_pairs;
               I_kk = map (\<lambda>delta_bm'.
                        fl_div M (fl_sub M (fl_mul M delta_bm' delta_bm') (Fin dt)) (Fin 2)) I_k;
               I_k0 =
                 (if fl_trapezoidal_approx self
                  then compute_trapezoidal_approx (fl_bm self) t0 y0 dt sqrt_dt
                  else map (\<lambda>(k, delta_bm').
                              fl_mul M (Fin (dt / 2))
                                (fl_add M delta_bm'
                                   (fl_div M (fl_mul M (randn k) (Fin sqrt_dt)) (Fin (sqrt 3)))))
                         (enumerate 0 I_k));
               I_kkk = map (\<lambda>delta_bm'.
                         fl_div M (fl_sub M (fl_mul M (fl_mul M delta_bm' delta_bm') delta_bm')
                                     (fl_mul M (Fin (3 * dt)) delta_bm')) (Fin 6)) I_k
           in Inr (I_k, I_kk, I_k0, I_kkk))"


definition g_weight_fl ::
  "real \<Rightarrow> tableau \<Rightarrow> real \<Rightarrow> real \<Rightarrow> fl list \<Rightarrow> fl list \<Rightarrow> fl list \<Rightarrow> fl list \<Rightarrow> nat \<Rightarrow> fl list" where
  "g_weight_fl M T dt sqrt_dt I_k I_kk I_k0 I_kkk s =
     map (\<lambda>(I_k', I_kk', I_k0', I_kkk').
            fl_add M
              (fl_add M
                 (fl_add M (fl_mul M (Fin (beta1 T s)) I_k')
                    (fl_div M (fl_mul M (Fin (beta2 T s)) I_kk') (Fin sqrt_dt)))
                 (fl_div M (fl_mul M (Fin (beta3 T s)) I_k0') (Fin dt)))
              (fl_div M (fl_mul M (Fin (beta4 T s)) I_kkk') (Fin dt)))
       (zip I_k (zip I_kk (zip I_k0 I_kkk)))"




text \<open>
  The deterministic Runge--Kutta update built from the drift alone, in the same arithmetic:
  the stage values are \<open>H0[s] = y0 + \<Sum>j<s. A0[s][j] * f(t0 + C0[j] * dt, H0[j]) * dt\<close> and
  the result is \<open>y0 + \<Sum>s<STAGES. alpha[s] * f(t0 + C0[s] * dt, H0[s]) * dt\<close>, the sums added
  from left to right. It reads neither the diffusion nor the Brownian path.
\<close>

definition drift_accumulate ::
  "real \<Rightarrow> tableau \<Rightarrow> (real \<Rightarrow> fl list \<Rightarrow> fl list) \<Rightarrow> real \<Rightarrow> real \<Rightarrow> fl list list \<Rightarrow> nat \<Rightarrow> nat \<Rightarrow>
   fl list \<Rightarrow> fl list" where
  "drift_accumulate M T f t0 dt H0 s j H0s =
     map (\<lambda>(H0s', f_eval'). fl_add M H0s' (fl_mul M (fl_mul M (Fin (A0 T s j)) f_eval') (Fin dt)))
       (zip H0s (f (t0 + C0 T j * dt) (H0 ! j)))"



subsection \<open>Inputs for the worked instances\<close>

text \<open>
  A four-stage tableau of the shape section 4.1 of the specification describes (row \<open>s\<close> of
  a matrix has \<open>s\<close> entries), a drift and a diffusion that keep the block structure, a path
  with two blocks, a one-interval trapezoidal rule and two random draws. They are the
  concrete inputs at which the theorems below are instantiated.
\<close>

definition example_tableau :: tableau where
  "example_tableau =
     \<lparr> STAGES = 4,
       C0 = (\<lambda>j. [0, 1, 1/2, 0] ! j),
       C1 = (\<lambda>j. [0, 1/4, 1, 1/4] ! j),
       A0 = (\<lambda>s j. [[], [1], [1/4, 1/4], [0, 0, 0]] ! s ! j),
       A1 = (\<lambda>s j. [[], [1/4], [1, 0], [0, 0, 1/4]] ! s ! j),
       B0 = (\<lambda>s j. [[], [0], [1, 1/2], [0, 0, 0]] ! s ! j),
       B1 = (\<lambda>s j. [[], [-1/2], [1, 0], [2, -1, 1/2]] ! s ! j),
       alpha = (\<lambda>j. [1/3, 2/3, 0, 0] ! j),
       beta1 = (\<lambda>j. [-1, 4/3, 2/3, 0] ! j),
       beta2 = (\<lambda>j. [-1, 4/3, -1/3, 0] ! j),
       beta3 = (\<lambda>j. [2, -4/3, -2/3, 0] ! j),
       beta4 = (\<lambda>j. [-2, 5/3, -2/3, 1] ! j) \<rparr>"

definition example_trapezoidal :: trapezoidal_fn where
  "example_trapezoidal W t0 y0 dt sqrt_dt =
     map (\<lambda>(w1, w0). dt / 2 * (w1 - w0)) (zip (W (t0 + dt)) (W t0))"

definition example_solver :: "bool \<Rightarrow> SRKDiagonal" where
  "example_solver b =
     \<lparr> sde_f = (\<lambda>t y. map (\<lambda>x. t - x) y),
       sde_g = (\<lambda>t y. map (\<lambda>x. x / 2) y),
       bm = (\<lambda>t. [t, 2 * t]),
       trapezoidal_approx = b \<rparr>"

definition example_randn :: "nat \<Rightarrow> real" where
  "example_randn k = (if k = 0 then 1 else - 1)"

text \<open>
  For the arithmetic with overflow: the largest finite value of single precision (the
  default tensor type), a solver with drift \<open>- y\<close>, zero diffusion and the Gaussian mode,
  whose path has the increment \<open>w\<close> in its first block, and random draws that are zero.
\<close>

definition float32_max :: real where
  "float32_max = (2 - 1 / 2 ^ 23) * 2 ^ 127"

definition example_fl_solver :: "real \<Rightarrow> SRKDiagonal_fl" where
  "example_fl_solver w =
     \<lparr> fl_sde_f = (\<lambda>t y. map fl_neg y),
       fl_sde_g = (\<lambda>t y. map (\<lambda>x. Fin 0) y),
       fl_bm = (\<lambda>t. [Fin (w * t), Fin t]),
       fl_trapezoidal_approx = False \<rparr>"

definition example_fl_trapezoidal :: trapezoidal_fn_fl where
  "example_fl_trapezoidal W t0 y0 dt sqrt_dt = map (\<lambda>x. Fin 0) y0"

definition example_fl_randn :: "nat \<Rightarrow> fl" where
  "example_fl_randn k = Fin 0"

section \<open>Properties\<close>

subsection \<open>Maps over zipped tuples\<close>

lemma nth_map_zip4:
  "k < length xs \<Longrightarrow> k < length ys \<Longrightarrow> k < length zs \<Longrightarrow> k < length ws \<Longrightarrow>
   map h (zip xs (zip ys (zip zs ws))) ! k = h (xs ! k, ys ! k, zs ! k, ws ! k)"
  by simp

lemma nth_map_zip3:
  "k < length xs \<Longrightarrow> k < length ys \<Longrightarrow> k < length zs \<Longrightarrow>
   map h (zip xs (zip ys zs)) ! k = h (xs ! k, ys ! k, zs ! k)"
  by simp

lemma less_length_map_zip4:
  "k < length (map h (zip xs (zip ys (zip zs ws)))) \<longleftrightarrow>
   k < length xs \<and> k < length ys \<and> k < length zs \<and> k < length ws"
  by simp

lemma less_length_map_zip3:
  "k < length (map h (zip xs (zip ys zs))) \<longleftrightarrow>
   k < length xs \<and> k < length ys \<and> k < length zs"
  by simp

lemma map_zip4_cong_last:
  assumes "length ws = length ws'"
    and "\<And>k. k < length xs \<Longrightarrow> k < length ys \<Longrightarrow> k < length zs \<Longrightarrow> k < length ws \<Longrightarrow>
           h (xs ! k, ys ! k, zs ! k, ws ! k) = h' (xs ! k, ys ! k, zs ! k, ws' ! k)"
  shows "map h (zip xs (zip ys (zip zs ws))) = map h' (zip xs (zip ys (zip zs ws')))"
proof (rule nth_equalityI)
  show "length (map h (zip xs (zip ys (zip zs ws)))) = length (map h' (zip xs (zip ys (zip zs ws'))))"
    using assms(1) by simp
next
  fix k assume "k < length (map h (zip xs (zip ys (zip zs ws))))"
  then have k: "k < length xs" "k < length ys" "k < length zs" "k < length ws"
    by (simp_all only: less_length_map_zip4)
  have k': "k < length ws'" using k(4) assms(1) by simp
  show "map h (zip xs (zip ys (zip zs ws))) ! k = map h' (zip xs (zip ys (zip zs ws'))) ! k"
    by (simp only: nth_map_zip4[OF k] nth_map_zip4[OF k(1-3) k'] assms(2)[OF k])
qed

subsection \<open>The stochastic integrals\<close>

text \<open>
  The block returns unless \<open>y0\<close> is empty and the path has a block at both times; when it
  returns, its four results and its calls are those written in the source.
\<close>

lemma integrals_succeed:
  assumes "y0 \<noteq> [] \<or> zip (bm self (t0 + dt)) (bm self t0) = []"
  shows "\<exists>tr I_k I_kk I_k0 I_kkk.
     stochastic_integrals cta randn self t0 y0 dt sqrt_dt = (tr, Inr (I_k, I_kk, I_k0, I_kkk))"
  using assms by (auto simp: stochastic_integrals_def Let_def split: prod.splits)

lemma integrals_values:
  assumes "stochastic_integrals cta randn self t0 y0 dt sqrt_dt = (tr, Inr (I_k, I_kk, I_k0, I_kkk))"
  shows "I_k = map (\<lambda>(bm_next, bm_cur). bm_next - bm_cur) (zip (bm self (t0 + dt)) (bm self t0))"
    and "I_kk = map (\<lambda>x. (x ^ 2 - dt) / 2) I_k"
    and "I_kkk = map (\<lambda>x. (x ^ 3 - 3 * dt * x) / 6) I_k"
    and "trapezoidal_approx self \<Longrightarrow> I_k0 = cta (bm self) t0 y0 dt sqrt_dt"
    and "trapezoidal_approx self \<Longrightarrow>
           tr = [Call_bm (t0 + dt), Call_bm t0, Call_compute_trapezoidal_approx t0 y0 dt sqrt_dt]"
    and "\<not> trapezoidal_approx self \<Longrightarrow>
           I_k0 = map (\<lambda>(k, x). dt / 2 * (x + randn k * sqrt_dt / sqrt 3)) (enumerate 0 I_k)"
    and "\<not> trapezoidal_approx self \<Longrightarrow>
           tr = [Call_bm (t0 + dt), Call_bm t0] @ replicate (length I_k) Call_randn_like"
  using assms
  by (auto simp: stochastic_integrals_def Let_def split: if_splits prod.splits)

lemma integrals_fail:
  assumes "y0 = []" "zip (bm self (t0 + dt)) (bm self t0) \<noteq> []"
  shows "stochastic_integrals cta randn self t0 y0 dt sqrt_dt = ([Call_bm (t0 + dt), Call_bm t0], Inl IndexError)"
  using assms by (simp add: stochastic_integrals_def Let_def)

lemma integrals_lengths:
  assumes "stochastic_integrals cta randn self t0 y0 dt sqrt_dt = (tr, Inr (I_k, I_kk, I_k0, I_kkk))"
  shows "length I_k = min (length (bm self (t0 + dt))) (length (bm self t0))"
    and "length I_kk = length I_k" and "length I_kkk = length I_k"
    and "length I_k0 = (if trapezoidal_approx self
                        then length (cta (bm self) t0 y0 dt sqrt_dt) else length I_k)"
proof -
  note v = integrals_values[OF assms]
  show "length I_k = min (length (bm self (t0 + dt))) (length (bm self t0))"
    by (subst v(1)) simp
  show "length I_kk = length I_k" by (subst v(2)) simp
  show "length I_kkk = length I_k" by (subst v(3)) simp
  show "length I_k0 = (if trapezoidal_approx self
                        then length (cta (bm self) t0 y0 dt sqrt_dt) else length I_k)"
  proof (cases "trapezoidal_approx self")
    case True
    then show ?thesis using v(4) by simp
  next
    case False
    have "length I_k0 = length I_k" by (subst v(6)[OF False]) simp
    then show ?thesis using False by simp
  qed
qed

lemma integrals_calls:
  assumes "stochastic_integrals cta randn self t0 y0 dt sqrt_dt = (tr, Inr (I_k, I_kk, I_k0, I_kkk))"
  shows "f_calls tr = 0 \<and> g_calls tr = 0"
proof (cases "trapezoidal_approx self")
  case True
  then show ?thesis using integrals_values(5)[OF assms] by (simp add: f_calls_def g_calls_def)
next
  case False
  then show ?thesis using integrals_values(7)[OF assms] by (simp add: f_calls_def g_calls_def)
qed

text \<open>Two runs of the block on the worked inputs, one in each mode.\<close>

lemma example_integrals_trapezoidal:
  "stochastic_integrals example_trapezoidal example_randn (example_solver True) 0 [1, 2] 1 1 =
     ([Call_bm 1, Call_bm 0, Call_compute_trapezoidal_approx 0 [1, 2] 1 1],
      Inr ([1, 2], [0, 3/2], [1/2, 1], [- (1/3), 1/3]))"
  by (simp add: stochastic_integrals_def example_trapezoidal_def example_solver_def Let_def)

lemma example_integrals_gaussian:
  "stochastic_integrals example_trapezoidal example_randn (example_solver False) 0 [1, 2] 1 1 =
     ([Call_bm 1, Call_bm 0, Call_randn_like, Call_randn_like],
      Inr ([1, 2], [0, 3/2], [1/2 * (1 + 1 / sqrt 3), 1/2 * (2 - 1 / sqrt 3)], [- (1/3), 1/3]))"
  by (simp add: stochastic_integrals_def example_randn_def example_solver_def Let_def
      enumerate_eq_zip upt_rec[of 0] upt_rec[of 1] numeral_2_eq_2 algebra_simps)

subsection \<open>The inner loop\<close>

text \<open>
  After \<open>n\<close> iterations every block of the accumulators is the block of \<open>y0\<close> plus the
  \<open>n\<close> weighted terms, and a block is present only where every zipped tuple has one. The
  loop reads \<open>H0[j]\<close> and \<open>H1[j]\<close> for \<open>j < n\<close> only, and makes one call of the drift and
  one of the diffusion per iteration.
\<close>

lemma accumulate_apply:
  "accumulate T self t0 dt sqrt_dt I_k0 H0 H1 s j (a, b, tr) =
     (map (\<lambda>(h, fe, ge, i). h + A0 T s j * fe * dt + B0 T s j * ge * i / dt)
        (zip a (zip (sde_f self (t0 + C0 T j * dt) (H0 ! j))
           (zip (sde_g self (t0 + C1 T j * dt) (H1 ! j)) I_k0))),
      map (\<lambda>(h, fe, ge). h + A1 T s j * fe * dt + B1 T s j * ge * sqrt_dt)
        (zip b (zip (sde_f self (t0 + C0 T j * dt) (H0 ! j))
           (sde_g self (t0 + C1 T j * dt) (H1 ! j)))),
      tr @ [Call_f (t0 + C0 T j * dt) (H0 ! j), Call_g (t0 + C1 T j * dt) (H1 ! j)])"
  by (simp add: accumulate_def Let_def)

lemma fold_upt_Suc: "fold h [0..<Suc n] x = h n (fold h [0..<n] x)"
  by simp

lemma accumulate_cong:
  assumes "H0 ! j = K0 ! j" "H1 ! j = K1 ! j"
  shows "accumulate T self t0 dt sqrt_dt I_k0 H0 H1 s j = accumulate T self t0 dt sqrt_dt I_k0 K0 K1 s j"
  using assms by (simp add: accumulate_def fun_eq_iff)

lemma inner_cong:
  assumes "\<And>j. j < n \<Longrightarrow> H0 ! j = K0 ! j \<and> H1 ! j = K1 ! j"
  shows "fold (accumulate T self t0 dt sqrt_dt I_k0 H0 H1 s) [0..<n] x
       = fold (accumulate T self t0 dt sqrt_dt I_k0 K0 K1 s) [0..<n] x"
  by (rule fold_cong) (auto simp: assms intro: accumulate_cong)

lemma inner_values:
  assumes "fold (accumulate T self t0 dt sqrt_dt I_k0 H0 H1 s) [0..<n] (y0, y0, tr) = (a, b, tr')"
  shows "(\<forall>k<length a. k < length y0 \<and> (n > 0 \<longrightarrow> k < length I_k0) \<and>
            (\<forall>j<n. k < length (sde_f self (t0 + C0 T j * dt) (H0 ! j)) \<and>
                    k < length (sde_g self (t0 + C1 T j * dt) (H1 ! j))) \<and>
            a ! k = y0 ! k + (\<Sum>j<n. A0 T s j * sde_f self (t0 + C0 T j * dt) (H0 ! j) ! k * dt
                                   + B0 T s j * sde_g self (t0 + C1 T j * dt) (H1 ! j) ! k * (I_k0 ! k) / dt))
       \<and> (\<forall>k<length b. k < length y0 \<and>
            (\<forall>j<n. k < length (sde_f self (t0 + C0 T j * dt) (H0 ! j)) \<and>
                    k < length (sde_g self (t0 + C1 T j * dt) (H1 ! j))) \<and>
            b ! k = y0 ! k + (\<Sum>j<n. A1 T s j * sde_f self (t0 + C0 T j * dt) (H0 ! j) ! k * dt
                                   + B1 T s j * sde_g self (t0 + C1 T j * dt) (H1 ! j) ! k * sqrt_dt))"
  using assms
proof (induction n arbitrary: a b tr')
  case 0
  then show ?case by auto
next
  case (Suc n)
  obtain a0 b0 tr0 where
    prev: "fold (accumulate T self t0 dt sqrt_dt I_k0 H0 H1 s) [0..<n] (y0, y0, tr) = (a0, b0, tr0)"
    by (metis prod_cases3)
  note IH = Suc.IH[OF prev]
  from Suc.prems prev have
    a: "a = map (\<lambda>(h, fe, ge, i). h + A0 T s n * fe * dt + B0 T s n * ge * i / dt)
        (zip a0 (zip (sde_f self (t0 + C0 T n * dt) (H0 ! n))
           (zip (sde_g self (t0 + C1 T n * dt) (H1 ! n)) I_k0)))"
    and b: "b = map (\<lambda>(h, fe, ge). h + A1 T s n * fe * dt + B1 T s n * ge * sqrt_dt)
        (zip b0 (zip (sde_f self (t0 + C0 T n * dt) (H0 ! n))
           (sde_g self (t0 + C1 T n * dt) (H1 ! n))))"
    by (simp_all add: accumulate_apply)
  show ?case
  proof (intro conjI allI impI)
    fix k assume k: "k < length a"
    then have k0: "k < length a0" and kf: "k < length (sde_f self (t0 + C0 T n * dt) (H0 ! n))"
      and kg: "k < length (sde_g self (t0 + C1 T n * dt) (H1 ! n))" and ki: "k < length I_k0"
      by (simp_all only: a less_length_map_zip4)
    from IH k0 show "k < length y0" by blast
    show "k < length I_k0" by (rule ki)
    show "a ! k = y0 ! k + (\<Sum>j<Suc n. A0 T s j * sde_f self (t0 + C0 T j * dt) (H0 ! j) ! k * dt
                                   + B0 T s j * sde_g self (t0 + C1 T j * dt) (H1 ! j) ! k * (I_k0 ! k) / dt)"
    proof -
      have "a0 ! k = y0 ! k + (\<Sum>j<n. A0 T s j * sde_f self (t0 + C0 T j * dt) (H0 ! j) ! k * dt
                                   + B0 T s j * sde_g self (t0 + C1 T j * dt) (H1 ! j) ! k * (I_k0 ! k) / dt)"
        using IH k0 by blast
      moreover have "a ! k = a0 ! k + A0 T s n * sde_f self (t0 + C0 T n * dt) (H0 ! n) ! k * dt
                      + B0 T s n * sde_g self (t0 + C1 T n * dt) (H1 ! n) ! k * (I_k0 ! k) / dt"
        unfolding a by (simp only: nth_map_zip4[OF k0 kf kg ki] prod.case)
      ultimately show ?thesis unfolding sum.lessThan_Suc by linarith
    qed
    fix j assume "j < Suc n"
    then show "k < length (sde_f self (t0 + C0 T j * dt) (H0 ! j))"
      using IH k0 kf by (cases "j = n") auto
    from \<open>j < Suc n\<close> show "k < length (sde_g self (t0 + C1 T j * dt) (H1 ! j))"
      using IH k0 kg by (cases "j = n") auto
  next
    fix k assume k: "k < length b"
    then have k0: "k < length b0" and kf: "k < length (sde_f self (t0 + C0 T n * dt) (H0 ! n))"
      and kg: "k < length (sde_g self (t0 + C1 T n * dt) (H1 ! n))"
      by (simp_all only: b less_length_map_zip3)
    from IH k0 show "k < length y0" by blast
    show "b ! k = y0 ! k + (\<Sum>j<Suc n. A1 T s j * sde_f self (t0 + C0 T j * dt) (H0 ! j) ! k * dt
                                   + B1 T s j * sde_g self (t0 + C1 T j * dt) (H1 ! j) ! k * sqrt_dt)"
    proof -
      have "b0 ! k = y0 ! k + (\<Sum>j<n. A1 T s j * sde_f self (t0 + C0 T j * dt) (H0 ! j) ! k * dt
                                   + B1 T s j * sde_g self (t0 + C1 T j * dt) (H1 ! j) ! k * sqrt_dt)"
        using IH k0 by blast
      moreover have "b ! k = b0 ! k + A1 T s n * sde_f self (t0 + C0 T n * dt) (H0 ! n) ! k * dt
                      + B1 T s n * sde_g self (t0 + C1 T n * dt) (H1 ! n) ! k * sqrt_dt"
        unfolding b by (simp only: nth_map_zip3[OF k0 kf kg] prod.case)
      ultimately show ?thesis unfolding sum.lessThan_Suc by linarith
    qed
    fix j assume "j < Suc n"
    then show "k < length (sde_f self (t0 + C0 T j * dt) (H0 ! j))"
      using IH k0 kf by (cases "j = n") auto
    from \<open>j < Suc n\<close> show "k < length (sde_g self (t0 + C1 T j * dt) (H1 ! j))"
      using IH k0 kg by (cases "j = n") auto
  qed
qed

lemma inner_trace_irrelevant:
  assumes "fold (accumulate T self t0 dt sqrt_dt I_k0 H0 H1 s) [0..<m] (a0, b0, tr) = (a, b, tr')"
  shows "\<exists>tr''. fold (accumulate T self t0 dt sqrt_dt I_k0 H0 H1 s) [0..<m] (a0, b0, trx) = (a, b, tr'')"
  using assms
proof (induction m arbitrary: a b tr')
  case 0
  then show ?case by simp
next
  case (Suc m)
  obtain a1 b1 tr1 where
    prev: "fold (accumulate T self t0 dt sqrt_dt I_k0 H0 H1 s) [0..<m] (a0, b0, tr) = (a1, b1, tr1)"
    by (metis prod_cases3)
  from Suc.IH[OF prev] obtain tr1' where
    prev': "fold (accumulate T self t0 dt sqrt_dt I_k0 H0 H1 s) [0..<m] (a0, b0, trx) = (a1, b1, tr1')"
    by blast
  from Suc.prems show ?case
    unfolding fold_upt_Suc prev prev' accumulate_apply by simp
qed

lemma calls_append:
  "f_calls (tr @ [Call_f t y, Call_g t' y']) = Suc (f_calls tr)"
  "g_calls (tr @ [Call_f t y, Call_g t' y']) = Suc (g_calls tr)"
  by (simp_all add: f_calls_def g_calls_def)

lemma inner_calls:
  assumes "fold (accumulate T self t0 dt sqrt_dt I_k0 H0 H1 s) [0..<m] (a0, b0, tr) = (a, b, tr')"
  shows "f_calls tr' = f_calls tr + m \<and> g_calls tr' = g_calls tr + m"
  using assms
proof (induction m arbitrary: a b tr')
  case 0
  then show ?case by simp
next
  case (Suc m)
  obtain a1 b1 tr1 where
    prev: "fold (accumulate T self t0 dt sqrt_dt I_k0 H0 H1 s) [0..<m] (a0, b0, tr) = (a1, b1, tr1)"
    by (metis prod_cases3)
  from Suc.prems have "tr' = tr1 @ [Call_f (t0 + C0 T m * dt) (H0 ! m), Call_g (t0 + C1 T m * dt) (H1 ! m)]"
    unfolding fold_upt_Suc prev accumulate_apply by simp
  then show ?case using Suc.IH[OF prev] by (simp only: calls_append) simp
qed

lemma inner_shape:
  assumes f: "\<And>t y. length (sde_f self t y) = length y"
    and g: "\<And>t y. length (sde_g self t y) = length y"
    and i: "length y0 \<le> length I_k0"
    and prevs: "\<And>j. j < m \<Longrightarrow> length (H0 ! j) = length y0 \<and> length (H1 ! j) = length y0"
    and "fold (accumulate T self t0 dt sqrt_dt I_k0 H0 H1 s) [0..<m] (y0, y0, tr) = (a, b, tr')"
  shows "length a = length y0 \<and> length b = length y0"
  using assms(4-)
proof (induction m arbitrary: a b tr')
  case 0
  then show ?case by auto
next
  case (Suc m)
  obtain a1 b1 tr1 where
    prev: "fold (accumulate T self t0 dt sqrt_dt I_k0 H0 H1 s) [0..<m] (y0, y0, tr) = (a1, b1, tr1)"
    by (metis prod_cases3)
  have IH: "length a1 = length y0 \<and> length b1 = length y0"
    using Suc.IH[OF _ prev] Suc.prems(1) by simp
  have hm: "length (H0 ! m) = length y0" "length (H1 ! m) = length y0"
    using Suc.prems(1)[of m] by simp_all
  from Suc.prems(2) have
    a: "a = map (\<lambda>(h, fe, ge, i). h + A0 T s m * fe * dt + B0 T s m * ge * i / dt)
        (zip a1 (zip (sde_f self (t0 + C0 T m * dt) (H0 ! m))
           (zip (sde_g self (t0 + C1 T m * dt) (H1 ! m)) I_k0)))"
    and b: "b = map (\<lambda>(h, fe, ge). h + A1 T s m * fe * dt + B1 T s m * ge * sqrt_dt)
        (zip b1 (zip (sde_f self (t0 + C0 T m * dt) (H0 ! m))
           (sde_g self (t0 + C1 T m * dt) (H1 ! m))))"
    unfolding fold_upt_Suc prev accumulate_apply by simp_all
  show ?case
    using IH i by (simp add: a b f g hm)
qed

subsection \<open>The loop over the stages\<close>

text \<open>
  After \<open>n\<close> stages the lists \<open>H0\<close> and \<open>H1\<close> have \<open>n\<close> entries, so stage \<open>s\<close> reads
  \<open>H0[j]\<close> and \<open>H1[j]\<close> for \<open>j < s\<close> inside the lists; entry \<open>s\<close> is the result of the
  inner loop of stage \<open>s\<close> and is not changed afterwards.
\<close>

lemma stage_apply:
  assumes "fold (accumulate T self t0 dt sqrt_dt I_k0 H0 H1 s) [0..<s] (y0, y0, tr) = (a, b, tr')"
  shows "stage T self t0 y0 dt sqrt_dt I_k I_kk I_k0 I_kkk s (H0, H1, y1, tr) =
     (H0 @ [a], H1 @ [b],
      map (\<lambda>(y, fe, ge, w). y + alpha T s * fe * dt + w * ge)
        (zip y1 (zip (sde_f self (t0 + C0 T s * dt) a) (zip (sde_g self (t0 + C1 T s * dt) b)
           (map (\<lambda>(i1, i2, i3, i4). beta1 T s * i1 + beta2 T s * i2 / sqrt_dt
                   + beta3 T s * i3 / dt + beta4 T s * i4 / dt)
              (zip I_k (zip I_kk (zip I_k0 I_kkk))))))),
      tr' @ [Call_f (t0 + C0 T s * dt) a, Call_g (t0 + C1 T s * dt) b])"
  using assms by (simp add: stage_def Let_def)

lemma stages_Suc:
  assumes prev: "fold (stage T self t0 y0 dt sqrt_dt I_k I_kk I_k0 I_kkk) [0..<n] ([], [], y0, tr0) = (K0, K1, z1, tr1)"
    and inner: "fold (accumulate T self t0 dt sqrt_dt I_k0 K0 K1 n) [0..<n] (y0, y0, tr1) = (a, b, tr2)"
  shows "fold (stage T self t0 y0 dt sqrt_dt I_k I_kk I_k0 I_kkk) [0..<Suc n] ([], [], y0, tr0) =
     (K0 @ [a], K1 @ [b],
      map (\<lambda>(y, fe, ge, w). y + alpha T n * fe * dt + w * ge)
        (zip z1 (zip (sde_f self (t0 + C0 T n * dt) a) (zip (sde_g self (t0 + C1 T n * dt) b)
           (map (\<lambda>(i1, i2, i3, i4). beta1 T n * i1 + beta2 T n * i2 / sqrt_dt
                   + beta3 T n * i3 / dt + beta4 T n * i4 / dt)
              (zip I_k (zip I_kk (zip I_k0 I_kkk))))))),
      tr2 @ [Call_f (t0 + C0 T n * dt) a, Call_g (t0 + C1 T n * dt) b])"
  by (simp only: fold_upt_Suc prev stage_apply[OF inner])

lemma outer_stage_lists:
  assumes "fold (stage T self t0 y0 dt sqrt_dt I_k I_kk I_k0 I_kkk) [0..<n] ([], [], y0, tr0) = (H0, H1, y1, tr)"
  shows "length H0 = n \<and> length H1 = n \<and>
     (\<forall>s<n. \<exists>tra trb. fold (accumulate T self t0 dt sqrt_dt I_k0 H0 H1 s) [0..<s] (y0, y0, tra) = (H0 ! s, H1 ! s, trb))"
  using assms
proof (induction n arbitrary: H0 H1 y1 tr)
  case 0
  then show ?case by simp
next
  case (Suc n)
  obtain K0 K1 z1 tr1 where
    prev: "fold (stage T self t0 y0 dt sqrt_dt I_k I_kk I_k0 I_kkk) [0..<n] ([], [], y0, tr0) = (K0, K1, z1, tr1)"
    by (metis prod_cases4)
  obtain a b tr2 where
    inner: "fold (accumulate T self t0 dt sqrt_dt I_k0 K0 K1 n) [0..<n] (y0, y0, tr1) = (a, b, tr2)"
    by (metis prod_cases3)
  note IH = Suc.IH[OF prev]
  from Suc.prems have H: "H0 = K0 @ [a]" "H1 = K1 @ [b]"
    unfolding stages_Suc[OF prev inner] by simp_all
  have len: "length K0 = n" "length K1 = n" using IH by simp_all
  have same: "\<And>s j. s \<le> n \<Longrightarrow> j < s \<Longrightarrow> K0 ! j = H0 ! j \<and> K1 ! j = H1 ! j"
    by (simp add: H len nth_append)
  show ?case
  proof (intro conjI allI impI)
    show "length H0 = Suc n" "length H1 = Suc n" by (simp_all add: H len)
    fix s assume s: "s < Suc n"
    show "\<exists>tra trb. fold (accumulate T self t0 dt sqrt_dt I_k0 H0 H1 s) [0..<s] (y0, y0, tra) = (H0 ! s, H1 ! s, trb)"
    proof (cases "s = n")
      case True
      have "fold (accumulate T self t0 dt sqrt_dt I_k0 H0 H1 n) [0..<n] (y0, y0, tr1) = (a, b, tr2)"
        using inner inner_cong[of n K0 H0 K1 H1] same[of n] by simp
      moreover have "H0 ! n = a" "H1 ! n = b" by (simp_all add: H len nth_append)
      ultimately show ?thesis using True by blast
    next
      case False
      with s have sn: "s < n" by simp
      then obtain tra trb where
        "fold (accumulate T self t0 dt sqrt_dt I_k0 K0 K1 s) [0..<s] (y0, y0, tra) = (K0 ! s, K1 ! s, trb)"
        using IH by blast
      moreover have "K0 ! s = H0 ! s" "K1 ! s = H1 ! s" using sn by (simp_all add: H len nth_append)
      moreover have "fold (accumulate T self t0 dt sqrt_dt I_k0 K0 K1 s) [0..<s] (y0, y0, tra)
           = fold (accumulate T self t0 dt sqrt_dt I_k0 H0 H1 s) [0..<s] (y0, y0, tra)"
        using inner_cong[of s K0 H0 K1 H1] same[of s] sn by simp
      ultimately show ?thesis by metis
    qed
  qed
qed

lemma outer_y1:
  assumes "fold (stage T self t0 y0 dt sqrt_dt I_k I_kk I_k0 I_kkk) [0..<n] ([], [], y0, tr0) = (H0, H1, y1, tr)"
  shows "\<forall>k<length y1. k < length y0 \<and>
            (\<forall>s<n. k < length (sde_f self (t0 + C0 T s * dt) (H0 ! s)) \<and>
                    k < length (sde_g self (t0 + C1 T s * dt) (H1 ! s)) \<and>
                    k < length I_k \<and> k < length I_kk \<and> k < length I_k0 \<and> k < length I_kkk) \<and>
            y1 ! k = y0 ! k + (\<Sum>s<n. alpha T s * sde_f self (t0 + C0 T s * dt) (H0 ! s) ! k * dt
               + (beta1 T s * I_k ! k + beta2 T s * I_kk ! k / sqrt_dt
                  + beta3 T s * I_k0 ! k / dt + beta4 T s * I_kkk ! k / dt)
                 * sde_g self (t0 + C1 T s * dt) (H1 ! s) ! k)"
  using assms
proof (induction n arbitrary: H0 H1 y1 tr)
  case 0
  then show ?case by auto
next
  case (Suc n)
  obtain K0 K1 z1 tr1 where
    prev: "fold (stage T self t0 y0 dt sqrt_dt I_k I_kk I_k0 I_kkk) [0..<n] ([], [], y0, tr0) = (K0, K1, z1, tr1)"
    by (metis prod_cases4)
  obtain a b tr2 where
    inner: "fold (accumulate T self t0 dt sqrt_dt I_k0 K0 K1 n) [0..<n] (y0, y0, tr1) = (a, b, tr2)"
    by (metis prod_cases3)
  note IH = Suc.IH[OF prev]
  have len: "length K0 = n" "length K1 = n" using outer_stage_lists[OF prev] by simp_all
  from Suc.prems have H: "H0 = K0 @ [a]" "H1 = K1 @ [b]"
    and y1: "y1 = map (\<lambda>(y, fe, ge, w). y + alpha T n * fe * dt + w * ge)
        (zip z1 (zip (sde_f self (t0 + C0 T n * dt) a) (zip (sde_g self (t0 + C1 T n * dt) b)
           (map (\<lambda>(i1, i2, i3, i4). beta1 T n * i1 + beta2 T n * i2 / sqrt_dt
                   + beta3 T n * i3 / dt + beta4 T n * i4 / dt)
              (zip I_k (zip I_kk (zip I_k0 I_kkk)))))))"
    unfolding stages_Suc[OF prev inner] by simp_all
  have old: "\<And>s. s < n \<Longrightarrow> H0 ! s = K0 ! s \<and> H1 ! s = K1 ! s"
    by (simp add: H len nth_append)
  have new: "H0 ! n = a" "H1 ! n = b" by (simp_all add: H len nth_append)
  show ?case
  proof (intro allI impI)
    fix k assume k: "k < length y1"
    then have kz: "k < length z1" and kf: "k < length (sde_f self (t0 + C0 T n * dt) a)"
      and kg: "k < length (sde_g self (t0 + C1 T n * dt) b)"
      and ki: "k < length I_k" "k < length I_kk" "k < length I_k0" "k < length I_kkk"
      by (simp_all only: y1 less_length_map_zip4)
    have kw: "k < length (map (\<lambda>(i1, i2, i3, i4). beta1 T n * i1 + beta2 T n * i2 / sqrt_dt
                   + beta3 T n * i3 / dt + beta4 T n * i4 / dt)
              (zip I_k (zip I_kk (zip I_k0 I_kkk))))"
      using ki by (simp only: less_length_map_zip4)
    have ynew: "y1 ! k = z1 ! k + (alpha T n * sde_f self (t0 + C0 T n * dt) a ! k * dt
               + (beta1 T n * I_k ! k + beta2 T n * I_kk ! k / sqrt_dt
                  + beta3 T n * I_k0 ! k / dt + beta4 T n * I_kkk ! k / dt)
                 * sde_g self (t0 + C1 T n * dt) b ! k)"
      unfolding y1
      by (simp only: nth_map_zip4[OF kz kf kg kw] nth_map_zip4[OF ki] prod.case)
    have sums: "(\<Sum>s<n. alpha T s * sde_f self (t0 + C0 T s * dt) (H0 ! s) ! k * dt
               + (beta1 T s * I_k ! k + beta2 T s * I_kk ! k / sqrt_dt
                  + beta3 T s * I_k0 ! k / dt + beta4 T s * I_kkk ! k / dt)
                 * sde_g self (t0 + C1 T s * dt) (H1 ! s) ! k)
          = (\<Sum>s<n. alpha T s * sde_f self (t0 + C0 T s * dt) (K0 ! s) ! k * dt
               + (beta1 T s * I_k ! k + beta2 T s * I_kk ! k / sqrt_dt
                  + beta3 T s * I_k0 ! k / dt + beta4 T s * I_kkk ! k / dt)
                 * sde_g self (t0 + C1 T s * dt) (K1 ! s) ! k)"
      by (rule sum.cong) (simp_all add: old)
    have bounds: "\<And>s. s < Suc n \<Longrightarrow> k < length (sde_f self (t0 + C0 T s * dt) (H0 ! s)) \<and>
                    k < length (sde_g self (t0 + C1 T s * dt) (H1 ! s))"
    proof -
      fix s assume "s < Suc n"
      show "k < length (sde_f self (t0 + C0 T s * dt) (H0 ! s)) \<and>
                    k < length (sde_g self (t0 + C1 T s * dt) (H1 ! s))"
      proof (cases "s = n")
        case True then show ?thesis using kf kg new by simp
      next
        case False
        with \<open>s < Suc n\<close> have "s < n" by simp
        then show ?thesis using IH kz old by simp
      qed
    qed
    show "k < length y0 \<and>
            (\<forall>s<Suc n. k < length (sde_f self (t0 + C0 T s * dt) (H0 ! s)) \<and>
                    k < length (sde_g self (t0 + C1 T s * dt) (H1 ! s)) \<and>
                    k < length I_k \<and> k < length I_kk \<and> k < length I_k0 \<and> k < length I_kkk) \<and>
            y1 ! k = y0 ! k + (\<Sum>s<Suc n. alpha T s * sde_f self (t0 + C0 T s * dt) (H0 ! s) ! k * dt
               + (beta1 T s * I_k ! k + beta2 T s * I_kk ! k / sqrt_dt
                  + beta3 T s * I_k0 ! k / dt + beta4 T s * I_kkk ! k / dt)
                 * sde_g self (t0 + C1 T s * dt) (H1 ! s) ! k)"
    proof (intro conjI allI impI)
      show "k < length y0" using IH kz by blast
      show "k < length I_k" "k < length I_kk" "k < length I_k0" "k < length I_kkk" by (rule ki)+
      show "y1 ! k = y0 ! k + (\<Sum>s<Suc n. alpha T s * sde_f self (t0 + C0 T s * dt) (H0 ! s) ! k * dt
               + (beta1 T s * I_k ! k + beta2 T s * I_kk ! k / sqrt_dt
                  + beta3 T s * I_k0 ! k / dt + beta4 T s * I_kkk ! k / dt)
                 * sde_g self (t0 + C1 T s * dt) (H1 ! s) ! k)"
      proof -
        have "z1 ! k = y0 ! k + (\<Sum>s<n. alpha T s * sde_f self (t0 + C0 T s * dt) (K0 ! s) ! k * dt
               + (beta1 T s * I_k ! k + beta2 T s * I_kk ! k / sqrt_dt
                  + beta3 T s * I_k0 ! k / dt + beta4 T s * I_kkk ! k / dt)
                 * sde_g self (t0 + C1 T s * dt) (K1 ! s) ! k)"
          using IH kz by blast
        then show ?thesis
          unfolding sum.lessThan_Suc new sums ynew by linarith
      qed
    next
      fix s assume "s < Suc n"
      then show "k < length (sde_f self (t0 + C0 T s * dt) (H0 ! s))"
        "k < length (sde_g self (t0 + C1 T s * dt) (H1 ! s))"
        using bounds by blast+
    qed
  qed
qed

lemma outer_length_y1:
  assumes "fold (stage T self t0 y0 dt sqrt_dt I_k I_kk I_k0 I_kkk) [0..<n] ([], [], y0, tr0) = (H0, H1, y1, tr)"
  shows "length y1 = Min (insert (length y0)
            ((\<lambda>s. min (length (sde_f self (t0 + C0 T s * dt) (H0 ! s)))
                   (min (length (sde_g self (t0 + C1 T s * dt) (H1 ! s)))
                     (min (length I_k) (min (length I_kk) (min (length I_k0) (length I_kkk)))))) ` {..<n}))"
  using assms
proof (induction n arbitrary: H0 H1 y1 tr)
  case 0
  then show ?case by auto
next
  case (Suc n)
  obtain K0 K1 z1 tr1 where
    prev: "fold (stage T self t0 y0 dt sqrt_dt I_k I_kk I_k0 I_kkk) [0..<n] ([], [], y0, tr0) = (K0, K1, z1, tr1)"
    by (metis prod_cases4)
  obtain a b tr2 where
    inner: "fold (accumulate T self t0 dt sqrt_dt I_k0 K0 K1 n) [0..<n] (y0, y0, tr1) = (a, b, tr2)"
    by (metis prod_cases3)
  note IH = Suc.IH[OF prev]
  have len: "length K0 = n" "length K1 = n" using outer_stage_lists[OF prev] by simp_all
  from Suc.prems have H: "H0 = K0 @ [a]" "H1 = K1 @ [b]"
    and y1: "y1 = map (\<lambda>(y, fe, ge, w). y + alpha T n * fe * dt + w * ge)
        (zip z1 (zip (sde_f self (t0 + C0 T n * dt) a) (zip (sde_g self (t0 + C1 T n * dt) b)
           (map (\<lambda>(i1, i2, i3, i4). beta1 T n * i1 + beta2 T n * i2 / sqrt_dt
                   + beta3 T n * i3 / dt + beta4 T n * i4 / dt)
              (zip I_k (zip I_kk (zip I_k0 I_kkk)))))))"
    unfolding stages_Suc[OF prev inner] by simp_all
  have new: "H0 ! n = a" "H1 ! n = b" by (simp_all add: H len nth_append)
  define m where "m = (\<lambda>G0 G1 s. min (length (sde_f self (t0 + C0 T s * dt) (G0 ! s)))
                   (min (length (sde_g self (t0 + C1 T s * dt) (G1 ! s)))
                     (min (length I_k) (min (length I_kk) (min (length I_k0) (length I_kkk))))))"
  have img: "m H0 H1 ` {..<n} = m K0 K1 ` {..<n}"
  proof (rule image_cong [OF refl])
    fix s assume "s \<in> {..<n}"
    then have "s < n" by simp
    then have "H0 ! s = K0 ! s" "H1 ! s = K1 ! s"
      by (simp_all add: H len nth_append)
    then show "m H0 H1 s = m K0 K1 s"
      unfolding m_def by (simp only:)
  qed
  have IH': "length z1 = Min (insert (length y0) (m K0 K1 ` {..<n}))"
    using IH by (simp only: m_def)
  have "length y1 = min (length z1) (m H0 H1 n)"
    unfolding y1 m_def new by (simp only: length_map length_zip)
  also have "\<dots> = min (m H0 H1 n) (Min (insert (length y0) (m K0 K1 ` {..<n})))"
    by (simp only: IH' min.commute)
  also have "\<dots> = Min (insert (m H0 H1 n) (insert (length y0) (m K0 K1 ` {..<n})))"
    by (rule Min_insert[symmetric]) simp_all
  also have "insert (m H0 H1 n) (insert (length y0) (m K0 K1 ` {..<n}))
        = insert (length y0) (m H0 H1 ` {..<Suc n})"
    by (simp only: lessThan_Suc img image_insert insert_commute)
  finally show ?case by (simp only: m_def)
qed

lemma outer_trace_irrelevant:
  assumes "fold (stage T self t0 y0 dt sqrt_dt I_k I_kk I_k0 I_kkk) [0..<n] ([], [], y0, tr0) = (H0, H1, y1, tr)"
  shows "\<exists>tr'. fold (stage T self t0 y0 dt sqrt_dt I_k I_kk I_k0 I_kkk) [0..<n] ([], [], y0, trx) = (H0, H1, y1, tr')"
  using assms
proof (induction n arbitrary: H0 H1 y1 tr)
  case 0
  then show ?case by simp
next
  case (Suc n)
  obtain K0 K1 z1 tr1 where
    prev: "fold (stage T self t0 y0 dt sqrt_dt I_k I_kk I_k0 I_kkk) [0..<n] ([], [], y0, tr0) = (K0, K1, z1, tr1)"
    by (metis prod_cases4)
  obtain a b tr2 where
    inner: "fold (accumulate T self t0 dt sqrt_dt I_k0 K0 K1 n) [0..<n] (y0, y0, tr1) = (a, b, tr2)"
    by (metis prod_cases3)
  from Suc.IH[OF prev] obtain tr1' where
    prev': "fold (stage T self t0 y0 dt sqrt_dt I_k I_kk I_k0 I_kkk) [0..<n] ([], [], y0, trx) = (K0, K1, z1, tr1')"
    by blast
  from inner_trace_irrelevant[OF inner] obtain tr2' where
    inner': "fold (accumulate T self t0 dt sqrt_dt I_k0 K0 K1 n) [0..<n] (y0, y0, tr1') = (a, b, tr2')"
    by blast
  from Suc.prems show ?case
    unfolding stages_Suc[OF prev inner] stages_Suc[OF prev' inner'] by simp
qed

lemma outer_calls:
  assumes "fold (stage T self t0 y0 dt sqrt_dt I_k I_kk I_k0 I_kkk) [0..<n] ([], [], y0, tr0) = (H0, H1, y1, tr)"
  shows "f_calls tr = f_calls tr0 + n * (n + 1) div 2 \<and> g_calls tr = g_calls tr0 + n * (n + 1) div 2"
  using assms
proof (induction n arbitrary: H0 H1 y1 tr)
  case 0
  then show ?case by simp
next
  case (Suc n)
  obtain K0 K1 z1 tr1 where
    prev: "fold (stage T self t0 y0 dt sqrt_dt I_k I_kk I_k0 I_kkk) [0..<n] ([], [], y0, tr0) = (K0, K1, z1, tr1)"
    by (metis prod_cases4)
  obtain a b tr2 where
    inner: "fold (accumulate T self t0 dt sqrt_dt I_k0 K0 K1 n) [0..<n] (y0, y0, tr1) = (a, b, tr2)"
    by (metis prod_cases3)
  from Suc.prems have tr: "tr = tr2 @ [Call_f (t0 + C0 T n * dt) a, Call_g (t0 + C1 T n * dt) b]"
    unfolding stages_Suc[OF prev inner] by simp
  have tri: "Suc n * (Suc n + 1) div 2 = n * (n + 1) div 2 + n + 1"
    by simp
  show ?case
    using Suc.IH[OF prev] inner_calls[OF inner] unfolding tr calls_append tri by simp
qed

lemma outer_shape:
  assumes f: "\<And>t y. length (sde_f self t y) = length y"
    and g: "\<And>t y. length (sde_g self t y) = length y"
    and i: "length y0 \<le> length I_k" "length y0 \<le> length I_kk"
           "length y0 \<le> length I_k0" "length y0 \<le> length I_kkk"
    and "fold (stage T self t0 y0 dt sqrt_dt I_k I_kk I_k0 I_kkk) [0..<n] ([], [], y0, tr0) = (H0, H1, y1, tr)"
  shows "(\<forall>s<n. length (H0 ! s) = length y0 \<and> length (H1 ! s) = length y0) \<and> length y1 = length y0"
  using assms(7)
proof (induction n arbitrary: H0 H1 y1 tr)
  case 0
  then show ?case by simp
next
  case (Suc n)
  obtain K0 K1 z1 tr1 where
    prev: "fold (stage T self t0 y0 dt sqrt_dt I_k I_kk I_k0 I_kkk) [0..<n] ([], [], y0, tr0) = (K0, K1, z1, tr1)"
    by (metis prod_cases4)
  obtain a b tr2 where
    inner: "fold (accumulate T self t0 dt sqrt_dt I_k0 K0 K1 n) [0..<n] (y0, y0, tr1) = (a, b, tr2)"
    by (metis prod_cases3)
  note IH = Suc.IH[OF prev]
  have len: "length K0 = n" "length K1 = n" using outer_stage_lists[OF prev] by simp_all
  have Ks: "\<And>j. j < n \<Longrightarrow> length (K0 ! j) = length y0 \<and> length (K1 ! j) = length y0"
    using IH by blast
  have ab: "length a = length y0" "length b = length y0"
    using inner_shape[OF f g i(3) Ks inner] by simp_all
  have z: "length z1 = length y0" using IH by blast
  from Suc.prems have H: "H0 = K0 @ [a]" "H1 = K1 @ [b]"
    and y1: "y1 = map (\<lambda>(y, fe, ge, w). y + alpha T n * fe * dt + w * ge)
        (zip z1 (zip (sde_f self (t0 + C0 T n * dt) a) (zip (sde_g self (t0 + C1 T n * dt) b)
           (map (\<lambda>(i1, i2, i3, i4). beta1 T n * i1 + beta2 T n * i2 / sqrt_dt
                   + beta3 T n * i3 / dt + beta4 T n * i4 / dt)
              (zip I_k (zip I_kk (zip I_k0 I_kkk)))))))"
    unfolding stages_Suc[OF prev inner] by simp_all
  have "length y1 = length y0"
    using i by (simp add: y1 f g ab z)
  moreover have "length (H0 ! s) = length y0 \<and> length (H1 ! s) = length y0" if "s < Suc n" for s
  proof (cases "s = n")
    case True
    then show ?thesis by (simp add: H len nth_append ab)
  next
    case False
    with that have "s < n" by simp
    then show ?thesis using Ks[of s] by (simp add: H len nth_append)
  qed
  ultimately show ?case by blast
qed

subsection \<open>The whole step\<close>

lemma step_unfold:
  assumes "0 < dt"
    and "stochastic_integrals cta randn self t0 y0 dt (sqrt dt) = (tr0, Inr (I_k, I_kk, I_k0, I_kkk))"
    and "stages T self t0 y0 dt (sqrt dt) I_k I_kk I_k0 I_kkk tr0 = (H0, H1, y1, tr)"
  shows "step T cta randn self t0 y0 dt = (tr, Inr (t0 + dt, y1))"
  using assms by (simp add: step_def Let_def)

lemma step_cached_unfold:
  assumes "0 < dt"
    and "stochastic_integrals cta randn self t0 y0 dt (sqrt dt) = (tr0, Inr (I_k, I_kk, I_k0, I_kkk))"
    and "stages_cached T self t0 y0 dt (sqrt dt) I_k I_kk I_k0 I_kkk tr0 = (F, G, y1, tr)"
  shows "step_cached T cta randn self t0 y0 dt = (tr, Inr (t0 + dt, y1))"
  using assms by (simp add: step_cached_def Let_def)

lemma step_index_error:
  assumes "0 < dt" and "y0 = []" and "zip (bm self (t0 + dt)) (bm self t0) \<noteq> []"
  shows "step T cta randn self t0 y0 dt = ([Call_bm (t0 + dt), Call_bm t0], Inl IndexError)"
    and "step_cached T cta randn self t0 y0 dt = ([Call_bm (t0 + dt), Call_bm t0], Inl IndexError)"
  using assms(1) integrals_fail[OF assms(2,3)]
  by (simp_all add: step_def step_cached_def Let_def)

lemma example_stages:
  "stages example_tableau (example_solver True) 0 [1, 2] 1 1 [1, 2] [0, 3/2] [1/2, 1] [- (1/3), 1/3] tr =
     ([[1, 2], [0, 0], [21/16, 3], [1, 2]],
      [[1, 2], [1/2, 1], [1/2, 1], [107/64, 25/8]],
      [199/128, 109/48],
      tr @
      [Call_f 0 [1, 2], Call_g 0 [1, 2],
       Call_f 0 [1, 2], Call_g 0 [1, 2], Call_f 1 [0, 0], Call_g (1/4) [1/2, 1],
       Call_f 0 [1, 2], Call_g 0 [1, 2], Call_f 1 [0, 0], Call_g (1/4) [1/2, 1],
       Call_f (1/2) [21/16, 3], Call_g 1 [1/2, 1],
       Call_f 0 [1, 2], Call_g 0 [1, 2], Call_f 1 [0, 0], Call_g (1/4) [1/2, 1],
       Call_f (1/2) [21/16, 3], Call_g 1 [1/2, 1], Call_f 0 [1, 2], Call_g (1/4) [107/64, 25/8]])"
  by (simp add: stages_def stage_def accumulate_def example_tableau_def example_solver_def Let_def
      upt_conv_Cons eval_nat_numeral)

lemma example_stages_cached:
  "stages_cached example_tableau (example_solver True) 0 [1, 2] 1 1 [1, 2] [0, 3/2] [1/2, 1] [- (1/3), 1/3] tr =
     ([[- 1, - 2], [1, 1], [- (13/16), - (5/2)], [- 1, - 2]],
      [[1/2, 1], [1/4, 1/2], [1/4, 1/2], [107/128, 25/16]],
      [199/128, 109/48],
      tr @
      [Call_f 0 [1, 2], Call_g 0 [1, 2], Call_f 1 [0, 0], Call_g (1/4) [1/2, 1],
       Call_f (1/2) [21/16, 3], Call_g 1 [1/2, 1], Call_f 0 [1, 2], Call_g (1/4) [107/64, 25/8]])"
  by (simp add: stages_cached_def stage_cached_def accumulate_cached_def example_tableau_def
      example_solver_def Let_def upt_conv_Cons eval_nat_numeral)

lemma example_step:
  "step example_tableau example_trapezoidal example_randn (example_solver True) 0 [1, 2] 1 =
     ([Call_bm 1, Call_bm 0, Call_compute_trapezoidal_approx 0 [1, 2] 1 1,
       Call_f 0 [1, 2], Call_g 0 [1, 2],
       Call_f 0 [1, 2], Call_g 0 [1, 2], Call_f 1 [0, 0], Call_g (1/4) [1/2, 1],
       Call_f 0 [1, 2], Call_g 0 [1, 2], Call_f 1 [0, 0], Call_g (1/4) [1/2, 1],
       Call_f (1/2) [21/16, 3], Call_g 1 [1/2, 1],
       Call_f 0 [1, 2], Call_g 0 [1, 2], Call_f 1 [0, 0], Call_g (1/4) [1/2, 1],
       Call_f (1/2) [21/16, 3], Call_g 1 [1/2, 1], Call_f 0 [1, 2], Call_g (1/4) [107/64, 25/8]],
      Inr (1, [199/128, 109/48]))"
  by (simp add: step_def example_integrals_trapezoidal example_stages Let_def)

lemma example_step_cached:
  "step_cached example_tableau example_trapezoidal example_randn (example_solver True) 0 [1, 2] 1 =
     ([Call_bm 1, Call_bm 0, Call_compute_trapezoidal_approx 0 [1, 2] 1 1,
       Call_f 0 [1, 2], Call_g 0 [1, 2], Call_f 1 [0, 0], Call_g (1/4) [1/2, 1],
       Call_f (1/2) [21/16, 3], Call_g 1 [1/2, 1], Call_f 0 [1, 2], Call_g (1/4) [107/64, 25/8]],
      Inr (1, [199/128, 109/48]))"
  by (simp add: step_cached_def example_integrals_trapezoidal example_stages_cached Let_def)

text \<open>
  A state with three blocks on a path with two: the third block is dropped, without an
  error.
\<close>

lemma example_step_mismatch:
  "snd (step example_tableau example_trapezoidal example_randn (example_solver True) 0 [1, 2, 3] 1)
     = Inr (1, [199/128, 109/48])"
  by (simp add: step_def stochastic_integrals_def example_trapezoidal_def stages_def stage_def
      accumulate_def example_tableau_def example_solver_def Let_def upt_conv_Cons eval_nat_numeral)

subsection \<open>The variant that keeps the evaluations\<close>

text \<open>
  The two loops run in step: after \<open>n\<close> stages they hold the same \<open>y1\<close>, and \<open>F[j]\<close>,
  \<open>G[j]\<close> are the values \<^verbatim>\<open>step\<close> computes again from \<open>H0[j]\<close>, \<open>H1[j]\<close>.
\<close>

lemma accumulate_cached_apply:
  "accumulate_cached T dt sqrt_dt I_k0 F G s j (a, b) =
     (map (\<lambda>(h, fe, ge, i). h + A0 T s j * fe * dt + B0 T s j * ge * i / dt)
        (zip a (zip (F ! j) (zip (G ! j) I_k0))),
      map (\<lambda>(h, fe, ge). h + A1 T s j * fe * dt + B1 T s j * ge * sqrt_dt)
        (zip b (zip (F ! j) (G ! j))))"
  by (simp add: accumulate_cached_def Let_def)

lemma inner_cached:
  assumes "\<And>j. j < m \<Longrightarrow> F ! j = sde_f self (t0 + C0 T j * dt) (H0 ! j) \<and>
                         G ! j = sde_g self (t0 + C1 T j * dt) (H1 ! j)"
    and "fold (accumulate T self t0 dt sqrt_dt I_k0 H0 H1 s) [0..<m] (y0, y0, tr) = (a, b, tr')"
  shows "fold (accumulate_cached T dt sqrt_dt I_k0 F G s) [0..<m] (y0, y0) = (a, b)"
  using assms
proof (induction m arbitrary: a b tr')
  case 0
  then show ?case by auto
next
  case (Suc m)
  obtain a1 b1 tr1 where
    prev: "fold (accumulate T self t0 dt sqrt_dt I_k0 H0 H1 s) [0..<m] (y0, y0, tr) = (a1, b1, tr1)"
    by (metis prod_cases3)
  have IH: "fold (accumulate_cached T dt sqrt_dt I_k0 F G s) [0..<m] (y0, y0) = (a1, b1)"
    using Suc.IH[OF _ prev] Suc.prems(1) by simp
  have FG: "F ! m = sde_f self (t0 + C0 T m * dt) (H0 ! m)" "G ! m = sde_g self (t0 + C1 T m * dt) (H1 ! m)"
    using Suc.prems(1)[of m] by simp_all
  from Suc.prems(2) show ?case
    unfolding fold_upt_Suc prev IH accumulate_apply accumulate_cached_apply FG by simp
qed

lemma stage_cached_apply:
  assumes "fold (accumulate_cached T dt sqrt_dt I_k0 F G s) [0..<s] (y0, y0) = (a, b)"
  shows "stage_cached T self t0 y0 dt sqrt_dt I_k I_kk I_k0 I_kkk s (F, G, y1, tr) =
     (F @ [sde_f self (t0 + C0 T s * dt) a], G @ [sde_g self (t0 + C1 T s * dt) b],
      map (\<lambda>(y, fe, ge, w). y + alpha T s * fe * dt + w * ge)
        (zip y1 (zip (sde_f self (t0 + C0 T s * dt) a) (zip (sde_g self (t0 + C1 T s * dt) b)
           (map (\<lambda>(i1, i2, i3, i4). beta1 T s * i1 + beta2 T s * i2 / sqrt_dt
                   + beta3 T s * i3 / dt + beta4 T s * i4 / dt)
              (zip I_k (zip I_kk (zip I_k0 I_kkk))))))),
      tr @ [Call_f (t0 + C0 T s * dt) a, Call_g (t0 + C1 T s * dt) b])"
  using assms by (simp add: stage_cached_def Let_def)

lemma outer_cached:
  assumes "fold (stage T self t0 y0 dt sqrt_dt I_k I_kk I_k0 I_kkk) [0..<n] ([], [], y0, tr0) = (H0, H1, y1, tr)"
    and "fold (stage_cached T self t0 y0 dt sqrt_dt I_k I_kk I_k0 I_kkk) [0..<n] ([], [], y0, tr0) = (F, G, z1, trc)"
  shows "z1 = y1 \<and> length F = n \<and> length G = n \<and>
     (\<forall>j<n. F ! j = sde_f self (t0 + C0 T j * dt) (H0 ! j) \<and>
             G ! j = sde_g self (t0 + C1 T j * dt) (H1 ! j)) \<and>
     f_calls trc = f_calls tr0 + n \<and> g_calls trc = g_calls tr0 + n"
  using assms
proof (induction n arbitrary: H0 H1 y1 tr F G z1 trc)
  case 0
  then show ?case by simp
next
  case (Suc n)
  obtain K0 K1 y1' tr1 where
    prev: "fold (stage T self t0 y0 dt sqrt_dt I_k I_kk I_k0 I_kkk) [0..<n] ([], [], y0, tr0) = (K0, K1, y1', tr1)"
    by (metis prod_cases4)
  obtain F' G' z1' trc' where
    prevc: "fold (stage_cached T self t0 y0 dt sqrt_dt I_k I_kk I_k0 I_kkk) [0..<n] ([], [], y0, tr0) = (F', G', z1', trc')"
    by (metis prod_cases4)
  obtain a b tr2 where
    inner: "fold (accumulate T self t0 dt sqrt_dt I_k0 K0 K1 n) [0..<n] (y0, y0, tr1) = (a, b, tr2)"
    by (metis prod_cases3)
  note IH = Suc.IH[OF prev prevc]
  have len: "length K0 = n" "length K1 = n" using outer_stage_lists[OF prev] by simp_all
  have lenF: "length F' = n" "length G' = n" using IH by simp_all
  have FG': "\<And>j. j < n \<Longrightarrow> F' ! j = sde_f self (t0 + C0 T j * dt) (K0 ! j) \<and>
                         G' ! j = sde_g self (t0 + C1 T j * dt) (K1 ! j)"
    using IH by blast
  have innerc: "fold (accumulate_cached T dt sqrt_dt I_k0 F' G' n) [0..<n] (y0, y0) = (a, b)"
    by (rule inner_cached[OF FG' inner])
  have z: "z1' = y1'" using IH by blast
  from Suc.prems(1) have H: "H0 = K0 @ [a]" "H1 = K1 @ [b]"
    and y1: "y1 = map (\<lambda>(y, fe, ge, w). y + alpha T n * fe * dt + w * ge)
        (zip y1' (zip (sde_f self (t0 + C0 T n * dt) a) (zip (sde_g self (t0 + C1 T n * dt) b)
           (map (\<lambda>(i1, i2, i3, i4). beta1 T n * i1 + beta2 T n * i2 / sqrt_dt
                   + beta3 T n * i3 / dt + beta4 T n * i4 / dt)
              (zip I_k (zip I_kk (zip I_k0 I_kkk)))))))"
    unfolding stages_Suc[OF prev inner] by simp_all
  from Suc.prems(2) have F: "F = F' @ [sde_f self (t0 + C0 T n * dt) a]"
    and G: "G = G' @ [sde_g self (t0 + C1 T n * dt) b]"
    and z1: "z1 = map (\<lambda>(y, fe, ge, w). y + alpha T n * fe * dt + w * ge)
        (zip z1' (zip (sde_f self (t0 + C0 T n * dt) a) (zip (sde_g self (t0 + C1 T n * dt) b)
           (map (\<lambda>(i1, i2, i3, i4). beta1 T n * i1 + beta2 T n * i2 / sqrt_dt
                   + beta3 T n * i3 / dt + beta4 T n * i4 / dt)
              (zip I_k (zip I_kk (zip I_k0 I_kkk)))))))"
    and trc: "trc = trc' @ [Call_f (t0 + C0 T n * dt) a, Call_g (t0 + C1 T n * dt) b]"
    unfolding fold_upt_Suc prevc stage_cached_apply[OF innerc] by simp_all
  have fg: "F ! j = sde_f self (t0 + C0 T j * dt) (H0 ! j) \<and>
            G ! j = sde_g self (t0 + C1 T j * dt) (H1 ! j)" if "j < Suc n" for j
  proof (cases "j = n")
    case True
    then show ?thesis by (simp add: F G H len lenF nth_append)
  next
    case False
    with that have "j < n" by simp
    then show ?thesis using FG'[of j] by (simp add: F G H len lenF nth_append)
  qed
  have "z1 = y1" by (simp only: z1 y1 z)
  moreover have "length F = Suc n" "length G = Suc n" by (simp_all add: F G lenF)
  moreover have "f_calls trc = f_calls tr0 + Suc n" "g_calls trc = g_calls tr0 + Suc n"
    using IH unfolding trc calls_append by simp_all
  ultimately show ?case using fg by blast
qed

lemma cached_same_result:
  "snd (step_cached T cta randn self t0 y0 dt) = snd (step T cta randn self t0 y0 dt)"
proof (cases "0 < dt")
  case False
  then show ?thesis by (simp add: step_def step_cached_def)
next
  case dt: True
  show ?thesis
  proof (cases "y0 = [] \<and> zip (bm self (t0 + dt)) (bm self t0) \<noteq> []")
    case True
    then show ?thesis using step_index_error[OF dt] by simp
  next
    case False
    then have ok: "y0 \<noteq> [] \<or> zip (bm self (t0 + dt)) (bm self t0) = []" by blast
    from integrals_succeed[OF ok] obtain tr0 I_k I_kk I_k0 I_kkk where
      eq: "stochastic_integrals cta randn self t0 y0 dt (sqrt dt) = (tr0, Inr (I_k, I_kk, I_k0, I_kkk))"
      by blast
    obtain H0 H1 y1 tr where
      st: "stages T self t0 y0 dt (sqrt dt) I_k I_kk I_k0 I_kkk tr0 = (H0, H1, y1, tr)"
      by (metis prod_cases4)
    obtain F G z1 trc where
      stc: "stages_cached T self t0 y0 dt (sqrt dt) I_k I_kk I_k0 I_kkk tr0 = (F, G, z1, trc)"
      by (metis prod_cases4)
    have "z1 = y1"
      using outer_cached[OF st[unfolded stages_def] stc[unfolded stages_cached_def]] by blast
    then show ?thesis
      using step_unfold[OF dt eq st] step_cached_unfold[OF dt eq stc] by simp
  qed
qed

subsection \<open>A diffusion that is zero\<close>

text \<open>
  When every entry the diffusion returns is zero, the loop bodies do not depend on the
  values of the four integrals, only on how many blocks they have.
\<close>

lemma accumulate_zero_g:
  assumes gz: "\<And>t y x. x \<in> set (sde_g self t y) \<Longrightarrow> x = 0"
    and len: "length I_k0 = length I_k0'"
  shows "accumulate T self t0 dt sqrt_dt I_k0 H0 H1 s j = accumulate T self t0 dt sqrt_dt I_k0' H0 H1 s j"
proof (rule ext)
  fix x :: "real list \<times> real list \<times> call list"
  obtain a b tr where x: "x = (a, b, tr)" by (metis prod_cases3)
  have "map (\<lambda>(h, fe, ge, i). h + A0 T s j * fe * dt + B0 T s j * ge * i / dt)
        (zip a (zip (sde_f self (t0 + C0 T j * dt) (H0 ! j))
           (zip (sde_g self (t0 + C1 T j * dt) (H1 ! j)) I_k0)))
      = map (\<lambda>(h, fe, ge, i). h + A0 T s j * fe * dt + B0 T s j * ge * i / dt)
        (zip a (zip (sde_f self (t0 + C0 T j * dt) (H0 ! j))
           (zip (sde_g self (t0 + C1 T j * dt) (H1 ! j)) I_k0')))"
  proof (rule map_zip4_cong_last[OF len])
    fix k assume "k < length (sde_g self (t0 + C1 T j * dt) (H1 ! j))"
    then have "sde_g self (t0 + C1 T j * dt) (H1 ! j) ! k = 0"
      using gz nth_mem by blast
    then show "(case (a ! k, sde_f self (t0 + C0 T j * dt) (H0 ! j) ! k,
                  sde_g self (t0 + C1 T j * dt) (H1 ! j) ! k, I_k0 ! k) of
            (h, fe, ge, i) \<Rightarrow> h + A0 T s j * fe * dt + B0 T s j * ge * i / dt) =
           (case (a ! k, sde_f self (t0 + C0 T j * dt) (H0 ! j) ! k,
                  sde_g self (t0 + C1 T j * dt) (H1 ! j) ! k, I_k0' ! k) of
            (h, fe, ge, i) \<Rightarrow> h + A0 T s j * fe * dt + B0 T s j * ge * i / dt)"
      by simp
  qed
  then show "accumulate T self t0 dt sqrt_dt I_k0 H0 H1 s j x = accumulate T self t0 dt sqrt_dt I_k0' H0 H1 s j x"
    unfolding x accumulate_apply by simp
qed

lemma stage_zero_g:
  assumes gz: "\<And>t y x. x \<in> set (sde_g self t y) \<Longrightarrow> x = 0"
    and len0: "length I_k0 = length I_k0'"
    and len: "min (length I_k) (min (length I_kk) (min (length I_k0) (length I_kkk)))
            = min (length I_k') (min (length I_kk') (min (length I_k0') (length I_kkk')))"
  shows "stage T self t0 y0 dt sqrt_dt I_k I_kk I_k0 I_kkk s = stage T self t0 y0 dt sqrt_dt I_k' I_kk' I_k0' I_kkk' s"
proof (rule ext)
  fix x :: "real list list \<times> real list list \<times> real list \<times> call list"
  obtain H0 H1 y1 tr where x: "x = (H0, H1, y1, tr)" by (metis prod_cases4)
  obtain a b tr2 where
    inner: "fold (accumulate T self t0 dt sqrt_dt I_k0 H0 H1 s) [0..<s] (y0, y0, tr) = (a, b, tr2)"
    by (metis prod_cases3)
  have acc: "accumulate T self t0 dt sqrt_dt I_k0 H0 H1 s = accumulate T self t0 dt sqrt_dt I_k0' H0 H1 s"
    by (rule ext) (rule accumulate_zero_g[OF gz len0])
  have inner': "fold (accumulate T self t0 dt sqrt_dt I_k0' H0 H1 s) [0..<s] (y0, y0, tr) = (a, b, tr2)"
    using inner by (simp only: acc)
  let ?w = "map (\<lambda>(i1, i2, i3, i4). beta1 T s * i1 + beta2 T s * i2 / sqrt_dt
                   + beta3 T s * i3 / dt + beta4 T s * i4 / dt)
              (zip I_k (zip I_kk (zip I_k0 I_kkk)))"
  let ?w' = "map (\<lambda>(i1, i2, i3, i4). beta1 T s * i1 + beta2 T s * i2 / sqrt_dt
                   + beta3 T s * i3 / dt + beta4 T s * i4 / dt)
              (zip I_k' (zip I_kk' (zip I_k0' I_kkk')))"
  have lw: "length ?w = length ?w'"
    using len by (simp only: length_map length_zip)
  have "map (\<lambda>(y, fe, ge, w). y + alpha T s * fe * dt + w * ge)
        (zip y1 (zip (sde_f self (t0 + C0 T s * dt) a) (zip (sde_g self (t0 + C1 T s * dt) b) ?w)))
      = map (\<lambda>(y, fe, ge, w). y + alpha T s * fe * dt + w * ge)
        (zip y1 (zip (sde_f self (t0 + C0 T s * dt) a) (zip (sde_g self (t0 + C1 T s * dt) b) ?w')))"
  proof (rule map_zip4_cong_last[OF lw])
    fix k assume "k < length (sde_g self (t0 + C1 T s * dt) b)"
    then have "sde_g self (t0 + C1 T s * dt) b ! k = 0"
      using gz nth_mem by blast
    then show "(case (y1 ! k, sde_f self (t0 + C0 T s * dt) a ! k, sde_g self (t0 + C1 T s * dt) b ! k, ?w ! k) of
            (y, fe, ge, w) \<Rightarrow> y + alpha T s * fe * dt + w * ge) =
           (case (y1 ! k, sde_f self (t0 + C0 T s * dt) a ! k, sde_g self (t0 + C1 T s * dt) b ! k, ?w' ! k) of
            (y, fe, ge, w) \<Rightarrow> y + alpha T s * fe * dt + w * ge)"
      by (simp only: prod.case mult_zero_right)
  qed
  then show "stage T self t0 y0 dt sqrt_dt I_k I_kk I_k0 I_kkk s x = stage T self t0 y0 dt sqrt_dt I_k' I_kk' I_k0' I_kkk' s x"
    unfolding x stage_apply[OF inner] stage_apply[OF inner'] by simp
qed

lemma stage_bm_irrelevant:
  "stage T (self\<lparr>bm := W\<rparr>) t0 y0 dt sqrt_dt I_k I_kk I_k0 I_kkk = stage T self t0 y0 dt sqrt_dt I_k I_kk I_k0 I_kkk"
proof -
  have "accumulate T (self\<lparr>bm := W\<rparr>) = accumulate T self"
    by (intro ext) (simp add: accumulate_def)
  then show ?thesis
    by (intro ext) (simp add: stage_def)
qed

lemma stages_zero_g:
  assumes gz0: "\<forall>t y. \<forall>x\<in>set (sde_g self t y). x = 0"
    and len0: "length I_k0 = length I_k0'"
    and len: "min (length I_k) (min (length I_kk) (min (length I_k0) (length I_kkk)))
            = min (length I_k') (min (length I_kk') (min (length I_k0') (length I_kkk')))"
    and st: "stages T self t0 y0 dt sqrt_dt I_k I_kk I_k0 I_kkk tr0 = (H0, H1, y1, tr)"
  shows "\<exists>tr'. stages T (self\<lparr>bm := W'\<rparr>) t0 y0 dt sqrt_dt I_k' I_kk' I_k0' I_kkk' tr0' = (H0, H1, y1, tr')"
proof -
  have gz: "\<And>t y x. x \<in> set (sde_g self t y) \<Longrightarrow> x = 0" using gz0 by blast
  have "stage T (self\<lparr>bm := W'\<rparr>) t0 y0 dt sqrt_dt I_k' I_kk' I_k0' I_kkk'
      = stage T self t0 y0 dt sqrt_dt I_k I_kk I_k0 I_kkk"
    unfolding stage_bm_irrelevant
    by (rule ext) (rule stage_zero_g[OF gz len0 len, symmetric])
  then show ?thesis
    using outer_trace_irrelevant[OF st[unfolded stages_def]] by (simp add: stages_def)
qed

text \<open>
  In real arithmetic: every block of \<open>y1\<close> is the block of \<open>y0\<close> plus
  \<open>\<Sum>s<STAGES. alpha[s] * f(t0 + C0[s] * dt, H0[s]) * dt\<close>, with the block structure kept
  \<open>y1\<close> has the blocks of \<open>y0\<close>, and the result is the same for every other path, helper
  and sequence of draws with the same numbers of blocks.
\<close>

lemma zero_diffusion_real:
  assumes "0 < dt" and "y0 \<noteq> [] \<or> zip (bm self (t0 + dt)) (bm self t0) = []"
    and "\<forall>t y. set (sde_g self t y) \<subseteq> {0}"
  shows "\<exists>tr0 I_k I_kk I_k0 I_kkk H0 H1 y1 tr.
     stochastic_integrals cta randn self t0 y0 dt (sqrt dt) = (tr0, Inr (I_k, I_kk, I_k0, I_kkk)) \<and>
     stages T self t0 y0 dt (sqrt dt) I_k I_kk I_k0 I_kkk tr0 = (H0, H1, y1, tr) \<and>
     step T cta randn self t0 y0 dt = (tr, Inr (t0 + dt, y1)) \<and>
     (\<forall>k<length y1.
        y1 ! k = y0 ! k + (\<Sum>s<STAGES T. alpha T s * sde_f self (t0 + C0 T s * dt) (H0 ! s) ! k * dt)) \<and>
     (\<forall>s<STAGES T. \<forall>k<length (H0 ! s).
        H0 ! s ! k = y0 ! k + (\<Sum>j<s. A0 T s j * sde_f self (t0 + C0 T j * dt) (H0 ! j) ! k * dt)) \<and>
     ((\<forall>t y. length (sde_f self t y) = length y) \<and> (\<forall>t y. length (sde_g self t y) = length y) \<and>
      length (bm self (t0 + dt)) = length y0 \<and> length (bm self t0) = length y0 \<and>
      (trapezoidal_approx self \<longrightarrow> length (cta (bm self) t0 y0 dt (sqrt dt)) = length y0)
      \<longrightarrow> length y1 = length y0) \<and>
     (\<forall>W' cta' randn'.
        length (W' (t0 + dt)) = length (bm self (t0 + dt)) \<and> length (W' t0) = length (bm self t0) \<and>
        (trapezoidal_approx self \<longrightarrow>
           length (cta' W' t0 y0 dt (sqrt dt)) = length (cta (bm self) t0 y0 dt (sqrt dt)))
        \<longrightarrow> snd (step T cta' randn' (self\<lparr>bm := W'\<rparr>) t0 y0 dt) = Inr (t0 + dt, y1))"
proof -
  have gz0: "\<forall>t y. \<forall>x\<in>set (sde_g self t y). x = 0" using assms(3) by blast
  then have gz: "\<And>t y x. x \<in> set (sde_g self t y) \<Longrightarrow> x = 0" by blast
  from integrals_succeed[OF assms(2)] obtain tr0 I_k I_kk I_k0 I_kkk where
    eq: "stochastic_integrals cta randn self t0 y0 dt (sqrt dt) = (tr0, Inr (I_k, I_kk, I_k0, I_kkk))"
    by blast
  obtain H0 H1 y1 tr where
    st: "stages T self t0 y0 dt (sqrt dt) I_k I_kk I_k0 I_kkk tr0 = (H0, H1, y1, tr)"
    by (metis prod_cases4)
  note fo = st[unfolded stages_def]
  note oy = outer_y1[OF fo]
  have y1: "y1 ! k = y0 ! k + (\<Sum>s<STAGES T. alpha T s * sde_f self (t0 + C0 T s * dt) (H0 ! s) ! k * dt)"
    if k: "k < length y1" for k
  proof -
    have g0: "sde_g self (t0 + C1 T s * dt) (H1 ! s) ! k = 0" if "s < STAGES T" for s
    proof -
      have "k < length (sde_g self (t0 + C1 T s * dt) (H1 ! s))" using oy k that by blast
      then show ?thesis using gz nth_mem by blast
    qed
    have "y1 ! k = y0 ! k + (\<Sum>s<STAGES T.
           alpha T s * sde_f self (t0 + C0 T s * dt) (H0 ! s) ! k * dt
           + (beta1 T s * I_k ! k + beta2 T s * I_kk ! k / sqrt dt
              + beta3 T s * I_k0 ! k / dt + beta4 T s * I_kkk ! k / dt)
             * sde_g self (t0 + C1 T s * dt) (H1 ! s) ! k)"
      using oy k by blast
    also have "(\<Sum>s<STAGES T.
           alpha T s * sde_f self (t0 + C0 T s * dt) (H0 ! s) ! k * dt
           + (beta1 T s * I_k ! k + beta2 T s * I_kk ! k / sqrt dt
              + beta3 T s * I_k0 ! k / dt + beta4 T s * I_kkk ! k / dt)
             * sde_g self (t0 + C1 T s * dt) (H1 ! s) ! k)
        = (\<Sum>s<STAGES T. alpha T s * sde_f self (t0 + C0 T s * dt) (H0 ! s) ! k * dt)"
      by (rule sum.cong) (simp_all add: g0)
    finally show ?thesis .
  qed
  have h0: "H0 ! s ! k = y0 ! k + (\<Sum>j<s. A0 T s j * sde_f self (t0 + C0 T j * dt) (H0 ! j) ! k * dt)"
    if s: "s < STAGES T" and k: "k < length (H0 ! s)" for s k
  proof -
    from outer_stage_lists[OF fo] s obtain tra trb where
      inner: "fold (accumulate T self t0 dt (sqrt dt) I_k0 H0 H1 s) [0..<s] (y0, y0, tra) = (H0 ! s, H1 ! s, trb)"
      by blast
    note iv = inner_values[OF inner]
    have g0: "sde_g self (t0 + C1 T j * dt) (H1 ! j) ! k = 0" if "j < s" for j
    proof -
      have "k < length (sde_g self (t0 + C1 T j * dt) (H1 ! j))" using iv k that by blast
      then show ?thesis using gz nth_mem by blast
    qed
    have "H0 ! s ! k = y0 ! k + (\<Sum>j<s.
              A0 T s j * sde_f self (t0 + C0 T j * dt) (H0 ! j) ! k * dt
              + B0 T s j * sde_g self (t0 + C1 T j * dt) (H1 ! j) ! k * (I_k0 ! k) / dt)"
      using iv k by blast
    also have "(\<Sum>j<s.
              A0 T s j * sde_f self (t0 + C0 T j * dt) (H0 ! j) ! k * dt
              + B0 T s j * sde_g self (t0 + C1 T j * dt) (H1 ! j) ! k * (I_k0 ! k) / dt)
        = (\<Sum>j<s. A0 T s j * sde_f self (t0 + C0 T j * dt) (H0 ! j) ! k * dt)"
      by (rule sum.cong) (simp_all add: g0)
    finally show ?thesis .
  qed
  have indep: "snd (step T cta' randn' (self\<lparr>bm := W'\<rparr>) t0 y0 dt) = Inr (t0 + dt, y1)"
    if same: "length (W' (t0 + dt)) = length (bm self (t0 + dt)) \<and> length (W' t0) = length (bm self t0) \<and>
        (trapezoidal_approx self \<longrightarrow>
           length (cta' W' t0 y0 dt (sqrt dt)) = length (cta (bm self) t0 y0 dt (sqrt dt)))"
    for W' cta' randn'
  proof -
    let ?self' = "self\<lparr>bm := W'\<rparr>"
    have "zip (W' (t0 + dt)) (W' t0) = [] \<longleftrightarrow> zip (bm self (t0 + dt)) (bm self t0) = []"
      using same by (metis length_0_conv zip_eq_Nil_iff)
    with assms(2) have ok': "y0 \<noteq> [] \<or> zip (bm ?self' (t0 + dt)) (bm ?self' t0) = []"
      by simp
    from integrals_succeed[OF ok'] obtain tr0' I_k' I_kk' I_k0' I_kkk' where
      eq': "stochastic_integrals cta' randn' ?self' t0 y0 dt (sqrt dt) = (tr0', Inr (I_k', I_kk', I_k0', I_kkk'))"
      by blast
    note l = integrals_lengths[OF eq] and l' = integrals_lengths[OF eq']
    have lk: "length I_k' = length I_k" using l(1) l'(1) same by simp
    have len0: "length I_k0 = length I_k0'"
      using l(4) l'(4) lk same by (simp split: if_splits)
    have len: "min (length I_k) (min (length I_kk) (min (length I_k0) (length I_kkk)))
            = min (length I_k') (min (length I_kk') (min (length I_k0') (length I_kkk')))"
      by (simp only: l(2,3) l'(2,3) lk len0)
    from stages_zero_g[OF gz0 len0 len st] obtain tr' where
      st': "stages T ?self' t0 y0 dt (sqrt dt) I_k' I_kk' I_k0' I_kkk' tr0' = (H0, H1, y1, tr')"
      by blast
    show ?thesis using step_unfold[OF assms(1) eq' st'] by simp
  qed
  have shape: "length y1 = length y0"
    if wf: "(\<forall>t y. length (sde_f self t y) = length y) \<and> (\<forall>t y. length (sde_g self t y) = length y) \<and>
      length (bm self (t0 + dt)) = length y0 \<and> length (bm self t0) = length y0 \<and>
      (trapezoidal_approx self \<longrightarrow> length (cta (bm self) t0 y0 dt (sqrt dt)) = length y0)"
  proof -
    note l = integrals_lengths[OF eq]
    have i: "length y0 \<le> length I_k" "length y0 \<le> length I_kk"
           "length y0 \<le> length I_k0" "length y0 \<le> length I_kkk"
      using wf l by (simp_all split: if_splits)
    have f: "\<And>t y. length (sde_f self t y) = length y" and g: "\<And>t y. length (sde_g self t y) = length y"
      using wf by blast+
    show ?thesis using outer_shape[OF f g i fo] by blast
  qed
  show ?thesis
    using eq st step_unfold[OF assms(1) eq st] y1 h0 shape indep by blast
qed

subsection \<open>A diffusion that is zero, in the arithmetic with overflow\<close>

text \<open>
  A sum of two entries is unchanged by adding zero, and the diffusion terms of lines 75, 79
  and 95 are zero when the diffusion is, as long as their other factor (\<open>I_k0\<close>,
  \<open>g_weight\<close>) is finite: an infinite or NaN factor times zero is NaN.
\<close>

lemma rnd_zero: "0 \<le> M \<Longrightarrow> rnd M 0 = Fin 0"
  by (simp add: rnd_def)




lemma g_term_H1_zero:
  assumes "0 \<le> M"
  shows "fl_mul M (fl_mul M (Fin b) (Fin 0)) (Fin sq) = Fin 0"
  using assms by (simp add: rnd_zero)










lemma drift_accumulate_cong:
  assumes "\<And>j. j < m \<Longrightarrow> H0 ! j = K0 ! j"
  shows "fold (drift_accumulate M T f t0 dt H0 s) [0..<m] x
       = fold (drift_accumulate M T f t0 dt K0 s) [0..<m] x"
  by (rule fold_cong) (auto simp: assms drift_accumulate_def fun_eq_iff)





lemma example_fl_integrals_big:
  "stochastic_integrals_fl float32_max example_fl_trapezoidal example_fl_randn
       (example_fl_solver (2 ^ 100)) 0 [Fin 1, Fin 2] 1 1
     = Inr ([Fin (2 ^ 100), Fin 1], [PInf, Fin 0], [Fin (2 ^ 99), Fin (1/2)], [PInf, Fin (- (1/3))])"
  by (simp add: stochastic_integrals_fl_def example_fl_solver_def example_fl_randn_def Let_def
      enumerate_eq_zip upt_conv_Cons eval_nat_numeral float32_max_def rnd_def fl_sub_def)


lemma example_fl_weight_big:
  "g_weight_fl float32_max example_tableau 1 1
     [Fin (2 ^ 100), Fin 1] [PInf, Fin 0] [Fin (2 ^ 99), Fin (1/2)] [PInf, Fin (- (1/3))] 0
     = [NInf, Fin (2/3)]"
  by (simp add: g_weight_fl_def example_tableau_def float32_max_def rnd_def)


section \<open>The claims\<close>

text \<open>
  C1. For \<open>dt > 0\<close>, \<^verbatim>\<open>step\<close> returns \<open>(t0 + dt, y1)\<close>, and every block \<open>k\<close> of \<open>y1\<close> is the
  block of \<open>y0\<close> plus the sum over the stages \<open>s < STAGES\<close> of
  \<open>alpha[s] * f(t0 + C0[s] * dt, H0[s]) * dt + g_weight[s] * g(t0 + C1[s] * dt, H1[s])\<close> with
  \<open>g_weight[s] = beta1[s] * I_k + beta2[s] * I_kk / sqrt dt + beta3[s] * I_k0 / dt
  + beta4[s] * I_kkk / dt\<close>, where \<open>H0\<close>, \<open>H1\<close> are the stage values and the four integrals
  those the step computes. When the drift and the diffusion keep the block structure and
  the path and the trapezoidal helper give one block per block of \<open>y0\<close>, \<open>y1\<close> has the
  blocks of \<open>y0\<close>. The step returns whenever \<open>y0\<close> has a block or the path has none.
\<close>

theorem step_update_formula:
  assumes "0 < dt" and "y0 \<noteq> [] \<or> zip (bm self (t0 + dt)) (bm self t0) = []"
  shows "\<exists>tr0 I_k I_kk I_k0 I_kkk H0 H1 y1 tr.
     stochastic_integrals cta randn self t0 y0 dt (sqrt dt) = (tr0, Inr (I_k, I_kk, I_k0, I_kkk)) \<and>
     stages T self t0 y0 dt (sqrt dt) I_k I_kk I_k0 I_kkk tr0 = (H0, H1, y1, tr) \<and>
     step T cta randn self t0 y0 dt = (tr, Inr (t0 + dt, y1)) \<and>
     (\<forall>k<length y1.
        y1 ! k = y0 ! k + (\<Sum>s<STAGES T.
           alpha T s * sde_f self (t0 + C0 T s * dt) (H0 ! s) ! k * dt
           + (beta1 T s * I_k ! k + beta2 T s * I_kk ! k / sqrt dt
              + beta3 T s * I_k0 ! k / dt + beta4 T s * I_kkk ! k / dt)
             * sde_g self (t0 + C1 T s * dt) (H1 ! s) ! k)) \<and>
     ((\<forall>t y. length (sde_f self t y) = length y) \<and> (\<forall>t y. length (sde_g self t y) = length y) \<and>
      length (bm self (t0 + dt)) = length y0 \<and> length (bm self t0) = length y0 \<and>
      (trapezoidal_approx self \<longrightarrow> length (cta (bm self) t0 y0 dt (sqrt dt)) = length y0)
      \<longrightarrow> length y1 = length y0)"
proof -
  from integrals_succeed[OF assms(2)] obtain tr0 I_k I_kk I_k0 I_kkk where
    eq: "stochastic_integrals cta randn self t0 y0 dt (sqrt dt) = (tr0, Inr (I_k, I_kk, I_k0, I_kkk))"
    by blast
  obtain H0 H1 y1 tr where
    st: "stages T self t0 y0 dt (sqrt dt) I_k I_kk I_k0 I_kkk tr0 = (H0, H1, y1, tr)"
    by (metis prod_cases4)
  note fo = st[unfolded stages_def]
  have formula: "\<forall>k<length y1.
        y1 ! k = y0 ! k + (\<Sum>s<STAGES T.
           alpha T s * sde_f self (t0 + C0 T s * dt) (H0 ! s) ! k * dt
           + (beta1 T s * I_k ! k + beta2 T s * I_kk ! k / sqrt dt
              + beta3 T s * I_k0 ! k / dt + beta4 T s * I_kkk ! k / dt)
             * sde_g self (t0 + C1 T s * dt) (H1 ! s) ! k)"
    using outer_y1[OF fo] by blast
  have shape: "length y1 = length y0"
    if wf: "(\<forall>t y. length (sde_f self t y) = length y) \<and> (\<forall>t y. length (sde_g self t y) = length y) \<and>
      length (bm self (t0 + dt)) = length y0 \<and> length (bm self t0) = length y0 \<and>
      (trapezoidal_approx self \<longrightarrow> length (cta (bm self) t0 y0 dt (sqrt dt)) = length y0)"
  proof -
    note l = integrals_lengths[OF eq]
    have i: "length y0 \<le> length I_k" "length y0 \<le> length I_kk"
           "length y0 \<le> length I_k0" "length y0 \<le> length I_kkk"
      using wf l by (simp_all split: if_splits)
    have f: "\<And>t y. length (sde_f self t y) = length y" and g: "\<And>t y. length (sde_g self t y) = length y"
      using wf by blast+
    show ?thesis using outer_shape[OF f g i fo] by blast
  qed
  show ?thesis
    using eq st step_unfold[OF assms(1) eq st] formula shape by blast
qed

theorem step_update_formula_witness:
  "(0::real) < 1 \<and> [1, 2::real] \<noteq> [] \<and>
   (\<exists>tr0 I_k I_kk I_k0 I_kkk H0 H1 y1 tr.
     stochastic_integrals example_trapezoidal example_randn (example_solver True) 0 [1, 2] 1 (sqrt 1)
       = (tr0, Inr (I_k, I_kk, I_k0, I_kkk)) \<and>
     stages example_tableau (example_solver True) 0 [1, 2] 1 (sqrt 1) I_k I_kk I_k0 I_kkk tr0
       = (H0, H1, y1, tr) \<and>
     step example_tableau example_trapezoidal example_randn (example_solver True) 0 [1, 2] 1
       = (tr, Inr (0 + 1, y1)) \<and>
     (\<forall>k<length y1.
        y1 ! k = [1, 2] ! k + (\<Sum>s<STAGES example_tableau.
           alpha example_tableau s
             * sde_f (example_solver True) (0 + C0 example_tableau s * 1) (H0 ! s) ! k * 1
           + (beta1 example_tableau s * I_k ! k + beta2 example_tableau s * I_kk ! k / sqrt 1
              + beta3 example_tableau s * I_k0 ! k / 1 + beta4 example_tableau s * I_kkk ! k / 1)
             * sde_g (example_solver True) (0 + C1 example_tableau s * 1) (H1 ! s) ! k)) \<and>
     ((\<forall>t y. length (sde_f (example_solver True) t y) = length y) \<and>
      (\<forall>t y. length (sde_g (example_solver True) t y) = length y) \<and>
      length (bm (example_solver True) (0 + 1)) = length [1, 2::real] \<and>
      length (bm (example_solver True) 0) = length [1, 2::real] \<and>
      (trapezoidal_approx (example_solver True) \<longrightarrow>
         length (example_trapezoidal (bm (example_solver True)) 0 [1, 2] 1 (sqrt 1)) = length [1, 2::real])
      \<longrightarrow> length y1 = length [1, 2::real]))"
proof -
  have h1: "(0::real) < 1" by simp
  have h0: "[1, 2::real] \<noteq> []" by simp
  have h2: "[1, 2::real] \<noteq> [] \<or> zip (bm (example_solver True) (0 + 1)) (bm (example_solver True) 0) = []"
    by simp
  show ?thesis
    by (rule conjI [OF h1 conjI [OF h0 step_update_formula [OF h1 h2]]])
qed

text \<open>
  C2. For every stage \<open>s < STAGES\<close> and every block \<open>k\<close> of the stage value,
  \<open>H0[s] = y0 + \<Sum>j<s. A0[s][j] * f(t0 + C0[j] * dt, H0[j]) * dt
  + B0[s][j] * g(t0 + C1[j] * dt, H1[j]) * I_k0 / dt\<close> and
  \<open>H1[s] = y0 + \<Sum>j<s. A1[s][j] * f(...) * dt + B1[s][j] * g(...) * sqrt dt\<close>. Stage \<open>s\<close> is
  the result of its inner loop run on the first \<open>s\<close> entries of \<open>H0\<close> and \<open>H1\<close> alone: it
  depends on strictly earlier stages only. With the block structure kept (as in C1) every
  stage value has the blocks of \<open>y0\<close>.
\<close>

theorem stage_values_recurrence:
  assumes "0 < dt" and "y0 \<noteq> [] \<or> zip (bm self (t0 + dt)) (bm self t0) = []"
  shows "\<exists>tr0 I_k I_kk I_k0 I_kkk H0 H1 y1 tr.
     stochastic_integrals cta randn self t0 y0 dt (sqrt dt) = (tr0, Inr (I_k, I_kk, I_k0, I_kkk)) \<and>
     stages T self t0 y0 dt (sqrt dt) I_k I_kk I_k0 I_kkk tr0 = (H0, H1, y1, tr) \<and>
     step T cta randn self t0 y0 dt = (tr, Inr (t0 + dt, y1)) \<and>
     length H0 = STAGES T \<and> length H1 = STAGES T \<and>
     (\<forall>s<STAGES T.
        (\<forall>k<length (H0 ! s).
           H0 ! s ! k = y0 ! k + (\<Sum>j<s.
              A0 T s j * sde_f self (t0 + C0 T j * dt) (H0 ! j) ! k * dt
              + B0 T s j * sde_g self (t0 + C1 T j * dt) (H1 ! j) ! k * (I_k0 ! k) / dt)) \<and>
        (\<forall>k<length (H1 ! s).
           H1 ! s ! k = y0 ! k + (\<Sum>j<s.
              A1 T s j * sde_f self (t0 + C0 T j * dt) (H0 ! j) ! k * dt
              + B1 T s j * sde_g self (t0 + C1 T j * dt) (H1 ! j) ! k * sqrt dt)) \<and>
        (\<exists>tra trb.
           fold (accumulate T self t0 dt (sqrt dt) I_k0 (take s H0) (take s H1) s) [0..<s] (y0, y0, tra)
             = (H0 ! s, H1 ! s, trb)) \<and>
        ((\<forall>t y. length (sde_f self t y) = length y) \<and> (\<forall>t y. length (sde_g self t y) = length y) \<and>
         length (bm self (t0 + dt)) = length y0 \<and> length (bm self t0) = length y0 \<and>
         (trapezoidal_approx self \<longrightarrow> length (cta (bm self) t0 y0 dt (sqrt dt)) = length y0)
         \<longrightarrow> length (H0 ! s) = length y0 \<and> length (H1 ! s) = length y0))"
proof -
  from integrals_succeed[OF assms(2)] obtain tr0 I_k I_kk I_k0 I_kkk where
    eq: "stochastic_integrals cta randn self t0 y0 dt (sqrt dt) = (tr0, Inr (I_k, I_kk, I_k0, I_kkk))"
    by blast
  obtain H0 H1 y1 tr where
    st: "stages T self t0 y0 dt (sqrt dt) I_k I_kk I_k0 I_kkk tr0 = (H0, H1, y1, tr)"
    by (metis prod_cases4)
  note fo = st[unfolded stages_def]
  note lists = outer_stage_lists[OF fo]
  have len: "length H0 = STAGES T" "length H1 = STAGES T" using lists by simp_all
  have stage_s: "(\<forall>k<length (H0 ! s).
           H0 ! s ! k = y0 ! k + (\<Sum>j<s.
              A0 T s j * sde_f self (t0 + C0 T j * dt) (H0 ! j) ! k * dt
              + B0 T s j * sde_g self (t0 + C1 T j * dt) (H1 ! j) ! k * (I_k0 ! k) / dt)) \<and>
        (\<forall>k<length (H1 ! s).
           H1 ! s ! k = y0 ! k + (\<Sum>j<s.
              A1 T s j * sde_f self (t0 + C0 T j * dt) (H0 ! j) ! k * dt
              + B1 T s j * sde_g self (t0 + C1 T j * dt) (H1 ! j) ! k * sqrt dt)) \<and>
        (\<exists>tra trb.
           fold (accumulate T self t0 dt (sqrt dt) I_k0 (take s H0) (take s H1) s) [0..<s] (y0, y0, tra)
             = (H0 ! s, H1 ! s, trb)) \<and>
        ((\<forall>t y. length (sde_f self t y) = length y) \<and> (\<forall>t y. length (sde_g self t y) = length y) \<and>
         length (bm self (t0 + dt)) = length y0 \<and> length (bm self t0) = length y0 \<and>
         (trapezoidal_approx self \<longrightarrow> length (cta (bm self) t0 y0 dt (sqrt dt)) = length y0)
         \<longrightarrow> length (H0 ! s) = length y0 \<and> length (H1 ! s) = length y0)"
    if s: "s < STAGES T" for s
  proof -
    from lists s obtain tra trb where
      inner: "fold (accumulate T self t0 dt (sqrt dt) I_k0 H0 H1 s) [0..<s] (y0, y0, tra) = (H0 ! s, H1 ! s, trb)"
      by blast
    note iv = inner_values[OF inner]
    have r0: "\<forall>k<length (H0 ! s).
           H0 ! s ! k = y0 ! k + (\<Sum>j<s.
              A0 T s j * sde_f self (t0 + C0 T j * dt) (H0 ! j) ! k * dt
              + B0 T s j * sde_g self (t0 + C1 T j * dt) (H1 ! j) ! k * (I_k0 ! k) / dt)"
      using iv by blast
    have r1: "\<forall>k<length (H1 ! s).
           H1 ! s ! k = y0 ! k + (\<Sum>j<s.
              A1 T s j * sde_f self (t0 + C0 T j * dt) (H0 ! j) ! k * dt
              + B1 T s j * sde_g self (t0 + C1 T j * dt) (H1 ! j) ! k * sqrt dt)"
      using iv by blast
    have "fold (accumulate T self t0 dt (sqrt dt) I_k0 (take s H0) (take s H1) s) [0..<s] (y0, y0, tra)
        = fold (accumulate T self t0 dt (sqrt dt) I_k0 H0 H1 s) [0..<s] (y0, y0, tra)"
      by (rule inner_cong) simp
    then have r2: "\<exists>tra trb.
           fold (accumulate T self t0 dt (sqrt dt) I_k0 (take s H0) (take s H1) s) [0..<s] (y0, y0, tra)
             = (H0 ! s, H1 ! s, trb)"
      using inner by metis
    have r3: "length (H0 ! s) = length y0 \<and> length (H1 ! s) = length y0"
      if wf: "(\<forall>t y. length (sde_f self t y) = length y) \<and> (\<forall>t y. length (sde_g self t y) = length y) \<and>
         length (bm self (t0 + dt)) = length y0 \<and> length (bm self t0) = length y0 \<and>
         (trapezoidal_approx self \<longrightarrow> length (cta (bm self) t0 y0 dt (sqrt dt)) = length y0)"
    proof -
      note l = integrals_lengths[OF eq]
      have i: "length y0 \<le> length I_k" "length y0 \<le> length I_kk"
           "length y0 \<le> length I_k0" "length y0 \<le> length I_kkk"
        using wf l by (simp_all split: if_splits)
      have f: "\<And>t y. length (sde_f self t y) = length y" and g: "\<And>t y. length (sde_g self t y) = length y"
        using wf by blast+
      show ?thesis using outer_shape[OF f g i fo] s by blast
    qed
    show ?thesis using r0 r1 r2 r3 by blast
  qed
  show ?thesis
    using eq st step_unfold[OF assms(1) eq st] len stage_s by blast
qed

theorem stage_values_recurrence_witness:
  "(0::real) < 1 \<and> [1, 2::real] \<noteq> [] \<and>
   (\<exists>tr0 I_k I_kk I_k0 I_kkk H0 H1 y1 tr.
     stochastic_integrals example_trapezoidal example_randn (example_solver True) 0 [1, 2::real] 1 (sqrt 1) = (tr0, Inr (I_k, I_kk, I_k0, I_kkk)) \<and>
     stages example_tableau (example_solver True) 0 [1, 2::real] 1 (sqrt 1) I_k I_kk I_k0 I_kkk tr0 = (H0, H1, y1, tr) \<and>
     step example_tableau example_trapezoidal example_randn (example_solver True) 0 [1, 2::real] 1 = (tr, Inr (0 + 1, y1)) \<and>
     length H0 = STAGES example_tableau \<and> length H1 = STAGES example_tableau \<and>
     (\<forall>s<STAGES example_tableau.
        (\<forall>k<length (H0 ! s).
           H0 ! s ! k = [1, 2::real] ! k + (\<Sum>j<s.
              A0 example_tableau s j * sde_f (example_solver True) (0 + C0 example_tableau j * 1) (H0 ! j) ! k * 1
              + B0 example_tableau s j * sde_g (example_solver True) (0 + C1 example_tableau j * 1) (H1 ! j) ! k * (I_k0 ! k) / 1)) \<and>
        (\<forall>k<length (H1 ! s).
           H1 ! s ! k = [1, 2::real] ! k + (\<Sum>j<s.
              A1 example_tableau s j * sde_f (example_solver True) (0 + C0 example_tableau j * 1) (H0 ! j) ! k * 1
              + B1 example_tableau s j * sde_g (example_solver True) (0 + C1 example_tableau j * 1) (H1 ! j) ! k * sqrt 1)) \<and>
        (\<exists>tra trb.
           fold (accumulate example_tableau (example_solver True) 0 1 (sqrt 1) I_k0 (take s H0) (take s H1) s) [0..<s] ([1, 2::real], [1, 2::real], tra)
             = (H0 ! s, H1 ! s, trb)) \<and>
        ((\<forall>t y. length (sde_f (example_solver True) t y) = length y) \<and> (\<forall>t y. length (sde_g (example_solver True) t y) = length y) \<and>
         length (bm (example_solver True) (0 + 1)) = length [1, 2::real] \<and> length (bm (example_solver True) 0) = length [1, 2::real] \<and>
         (trapezoidal_approx (example_solver True) \<longrightarrow> length (example_trapezoidal (bm (example_solver True)) 0 [1, 2::real] 1 (sqrt 1)) = length [1, 2::real])
         \<longrightarrow> length (H0 ! s) = length [1, 2::real] \<and> length (H1 ! s) = length [1, 2::real])))"
proof -
  have h1: "(0::real) < 1" by simp
  have h0: "[1, 2::real] \<noteq> []" by simp
  have h2: "[1, 2::real] \<noteq> [] \<or> zip (bm (example_solver True) (0 + 1)) (bm (example_solver True) 0) = []"
    by simp
  show ?thesis
    by (rule conjI [OF h1 conjI [OF h0 stage_values_recurrence [OF h1 h2]]])
qed

text \<open>
  C3. For \<open>dt > 0\<close> the block computes, for every block \<open>k\<close> of the increment,
  \<open>I_k = bm(t0 + dt) - bm(t0)\<close>, \<open>I_kk = (I_k\<^sup>2 - dt) / 2\<close> and
  \<open>I_kkk = (I_k\<^sup>3 - 3 dt I_k) / 6\<close>. The block returns whenever \<open>y0\<close> has a block or the
  path has none (so whenever the path has as many blocks as the state).
\<close>

theorem derived_integrals_exact:
  assumes "0 < dt" and "y0 \<noteq> [] \<or> zip (bm self (t0 + dt)) (bm self t0) = []"
  shows "\<exists>tr I_k I_kk I_k0 I_kkk.
     stochastic_integrals cta randn self t0 y0 dt (sqrt dt) = (tr, Inr (I_k, I_kk, I_k0, I_kkk)) \<and>
     length I_k = min (length (bm self (t0 + dt))) (length (bm self t0)) \<and>
     length I_kk = length I_k \<and> length I_kkk = length I_k \<and>
     (\<forall>k<length I_k.
        I_k ! k = bm self (t0 + dt) ! k - bm self t0 ! k \<and>
        I_kk ! k = ((I_k ! k) ^ 2 - dt) / 2 \<and>
        I_kkk ! k = ((I_k ! k) ^ 3 - 3 * dt * I_k ! k) / 6)"
proof -
  from integrals_succeed[OF assms(2)] obtain tr I_k I_kk I_k0 I_kkk where
    eq: "stochastic_integrals cta randn self t0 y0 dt (sqrt dt) = (tr, Inr (I_k, I_kk, I_k0, I_kkk))"
    by blast
  note v = integrals_values(1-3)[OF eq]
  have len: "length I_k = min (length (bm self (t0 + dt))) (length (bm self t0))"
    by (simp add: v(1))
  have "I_k ! k = bm self (t0 + dt) ! k - bm self t0 ! k" if "k < length I_k" for k
    using that by (simp add: v(1))
  moreover have "I_kk ! k = ((I_k ! k) ^ 2 - dt) / 2" if "k < length I_k" for k
    using that by (subst v(2)) simp
  moreover have "I_kkk ! k = ((I_k ! k) ^ 3 - 3 * dt * I_k ! k) / 6" if "k < length I_k" for k
    using that by (subst v(3)) simp
  moreover have "length I_kk = length I_k" "length I_kkk = length I_k"
    by (subst v(2), simp) (subst v(3), simp)
  ultimately show ?thesis using eq len by blast
qed

theorem derived_integrals_exact_witness:
  "(0::real) < 1 \<and>
   [1, 2::real] \<noteq> [] \<and>
   (\<exists>tr I_k I_kk I_k0 I_kkk.
     stochastic_integrals example_trapezoidal example_randn (example_solver True) 0 [1, 2] 1 (sqrt 1)
       = (tr, Inr (I_k, I_kk, I_k0, I_kkk)) \<and>
     length I_k = min (length (bm (example_solver True) (0 + 1))) (length (bm (example_solver True) 0)) \<and>
     length I_kk = length I_k \<and> length I_kkk = length I_k \<and>
     (\<forall>k<length I_k.
        I_k ! k = bm (example_solver True) (0 + 1) ! k - bm (example_solver True) 0 ! k \<and>
        I_kk ! k = ((I_k ! k) ^ 2 - 1) / 2 \<and>
        I_kkk ! k = ((I_k ! k) ^ 3 - 3 * 1 * I_k ! k) / 6))"
proof -
  have h1: "(0::real) < 1" by simp
  have h2: "[1, 2::real] \<noteq> [] \<or> zip (bm (example_solver True) (0 + 1)) (bm (example_solver True) 0) = []"
    by simp
  have h0: "[1, 2::real] \<noteq> []" by simp
  show ?thesis
    by (intro conjI h0 h1 derived_integrals_exact [OF h1 h2])
qed

text \<open>
  C4. The constructor sets \<^verbatim>\<open>trapezoidal_approx\<close> to true unless the key is present with
  the value false; without the key it is true. When the key is false, \<open>I_k0\<close> is
  \<open>dt / 2 * (I_k + Z * sqrt dt / sqrt 3)\<close> per block, with \<open>Z\<close> one draw of the random source
  per block; otherwise \<open>I_k0\<close> is what the trapezoidal helper returns for the path, and the
  random source is not called.
\<close>

theorem integral_mode_selection:
  assumes "0 < dt" and "y0 \<noteq> [] \<or> zip (W (t0 + dt)) (W t0) = []"
  shows "trapezoidal_approx (init f g W Map.empty) \<and>
     trapezoidal_approx (init f g W options) = (options ''trapezoidal_approx'' \<noteq> Some False) \<and>
     (\<exists>tr I_k I_kk I_k0 I_kkk.
        stochastic_integrals cta randn (init f g W options) t0 y0 dt (sqrt dt)
          = (tr, Inr (I_k, I_kk, I_k0, I_kkk)) \<and>
        (if options ''trapezoidal_approx'' = Some False
         then length I_k0 = length I_k \<and>
              (\<forall>k<length I_k. I_k0 ! k = dt / 2 * (I_k ! k + randn k * sqrt dt / sqrt 3)) \<and>
              tr = [Call_bm (t0 + dt), Call_bm t0] @ replicate (length I_k) Call_randn_like
         else I_k0 = cta W t0 y0 dt (sqrt dt) \<and>
              tr = [Call_bm (t0 + dt), Call_bm t0, Call_compute_trapezoidal_approx t0 y0 dt (sqrt dt)]))"
proof -
  let ?self = "init f g W options"
  have flag: "trapezoidal_approx ?self = (options ''trapezoidal_approx'' \<noteq> Some False)"
    by (simp add: init_def split: option.splits)
  have dflt: "trapezoidal_approx (init f g W Map.empty)"
    by (simp add: init_def)
  have W: "bm ?self = W" by (simp add: init_def)
  from assms(2) have ok: "y0 \<noteq> [] \<or> zip (bm ?self (t0 + dt)) (bm ?self t0) = []"
    by (simp add: W)
  from integrals_succeed[OF ok] obtain tr I_k I_kk I_k0 I_kkk where
    eq: "stochastic_integrals cta randn ?self t0 y0 dt (sqrt dt) = (tr, Inr (I_k, I_kk, I_k0, I_kkk))"
    by blast
  note v = integrals_values[OF eq]
  have mode: "if options ''trapezoidal_approx'' = Some False
         then length I_k0 = length I_k \<and>
              (\<forall>k<length I_k. I_k0 ! k = dt / 2 * (I_k ! k + randn k * sqrt dt / sqrt 3)) \<and>
              tr = [Call_bm (t0 + dt), Call_bm t0] @ replicate (length I_k) Call_randn_like
         else I_k0 = cta W t0 y0 dt (sqrt dt) \<and>
              tr = [Call_bm (t0 + dt), Call_bm t0, Call_compute_trapezoidal_approx t0 y0 dt (sqrt dt)]"
  proof (cases "options ''trapezoidal_approx'' = Some False")
    case True
    then have nt: "\<not> trapezoidal_approx ?self" by (simp add: flag)
    have i0: "I_k0 = map (\<lambda>(k, x). dt / 2 * (x + randn k * sqrt dt / sqrt 3)) (enumerate 0 I_k)"
      by (rule v(6)[OF nt])
    have "length I_k0 = length I_k" by (simp add: i0)
    moreover have "I_k0 ! k = dt / 2 * (I_k ! k + randn k * sqrt dt / sqrt 3)" if "k < length I_k" for k
      using that by (simp add: i0 nth_enumerate_eq)
    ultimately show ?thesis using True v(7)[OF nt] by simp
  next
    case False
    then have t: "trapezoidal_approx ?self" by (simp add: flag)
    show ?thesis using False v(4)[OF t] v(5)[OF t] by (simp add: W)
  qed
  show ?thesis using dflt flag eq mode by blast
qed

theorem integral_mode_selection_witness:
  "(0::real) < 1 \<and>
   [1, 2::real] \<noteq> [] \<and>
   (trapezoidal_approx (init (\<lambda>t y. y) (\<lambda>t y. y) (\<lambda>t. [t, 2 * t]) Map.empty) \<and>
    trapezoidal_approx (init (\<lambda>t y. y) (\<lambda>t y. y) (\<lambda>t. [t, 2 * t]) [''trapezoidal_approx'' \<mapsto> False])
      = ([''trapezoidal_approx'' \<mapsto> False] ''trapezoidal_approx'' \<noteq> Some False) \<and>
    (\<exists>tr I_k I_kk I_k0 I_kkk.
       stochastic_integrals example_trapezoidal example_randn
           (init (\<lambda>t y. y) (\<lambda>t y. y) (\<lambda>t. [t, 2 * t]) [''trapezoidal_approx'' \<mapsto> False])
           0 [1, 2] 1 (sqrt 1)
         = (tr, Inr (I_k, I_kk, I_k0, I_kkk)) \<and>
       (if [''trapezoidal_approx'' \<mapsto> False] ''trapezoidal_approx'' = Some False
        then length I_k0 = length I_k \<and>
             (\<forall>k<length I_k. I_k0 ! k = 1 / 2 * (I_k ! k + example_randn k * sqrt 1 / sqrt 3)) \<and>
             tr = [Call_bm (0 + 1), Call_bm 0] @ replicate (length I_k) Call_randn_like
        else I_k0 = example_trapezoidal (\<lambda>t. [t, 2 * t]) 0 [1, 2] 1 (sqrt 1) \<and>
             tr = [Call_bm (0 + 1), Call_bm 0, Call_compute_trapezoidal_approx 0 [1, 2] 1 (sqrt 1)])))"
proof -
  have h1: "(0::real) < 1" by simp
  have h2: "[1, 2::real] \<noteq> [] \<or> zip [0 + 1, 2 * (0 + 1)] [0, 2 * (0::real)] = []"
    by simp
  have h0: "[1, 2::real] \<noteq> []" by simp
  show ?thesis
    by (rule conjI [OF h1 conjI [OF h0
          integral_mode_selection [of 1 "[1, 2]" "\<lambda>t. [t, 2 * t]" 0, OF h1 h2]]])
qed

text \<open>
  C5. With \<open>dt = 0\<close> or \<open>dt < 0\<close> the assertion fails and \<^verbatim>\<open>step\<close> returns the failure to
  its caller; the list of calls is empty: the Brownian path, the random source, the drift
  and the diffusion have not been called.
\<close>

theorem step_rejects_nonpositive_dt:
  "dt \<le> 0 \<Longrightarrow> step T cta randn self t0 y0 dt = ([], Inl AssertionError)"
  by (simp add: step_def)

theorem step_rejects_nonpositive_dt_witness:
  "(0::real) \<le> 0 \<and>
   step example_tableau example_trapezoidal example_randn (example_solver True) 0 [1, 2] 0
     = ([], Inl AssertionError) \<and>
   (- 1 ::real) \<le> 0 \<and>
   step example_tableau example_trapezoidal example_randn (example_solver False) 0 [1, 2] (- 1)
     = ([], Inl AssertionError)"
  using step_rejects_nonpositive_dt [of 0 example_tableau example_trapezoidal example_randn "example_solver True" 0 "[1, 2]"]
    step_rejects_nonpositive_dt [of "- 1" example_tableau example_trapezoidal example_randn "example_solver False" 0 "[1, 2]"]
  by simp




text \<open>
  C7. With \<^verbatim>\<open>trapezoidal_approx\<close> true, for the same path, \<open>t0\<close>, \<open>y0\<close> and \<open>dt\<close>, two runs
  compute the same \<open>I_k, I_kk, I_k0, I_kkk\<close> and the same result (and make the same calls):
  the only input that differs between two runs, the values the random source would draw,
  is not read. The drift, the diffusion, the path and the trapezoidal helper are functions
  of their arguments.
\<close>

theorem trapezoidal_mode_reproducible:
  assumes "trapezoidal_approx self"
  shows "stochastic_integrals cta randn self t0 y0 dt (sqrt dt)
           = stochastic_integrals cta randn' self t0 y0 dt (sqrt dt)
       \<and> step T cta randn self t0 y0 dt = step T cta randn' self t0 y0 dt"
proof -
  have "stochastic_integrals cta randn self t0 y0 dt sq = stochastic_integrals cta randn' self t0 y0 dt sq" for sq
    using assms by (simp add: stochastic_integrals_def Let_def)
  then show ?thesis by (simp add: step_def)
qed

theorem trapezoidal_mode_reproducible_witness:
  "trapezoidal_approx (example_solver True) \<and>
   stochastic_integrals example_trapezoidal example_randn (example_solver True) 0 [1, 2] 1 (sqrt 1)
     = stochastic_integrals example_trapezoidal (\<lambda>k. 0) (example_solver True) 0 [1, 2] 1 (sqrt 1) \<and>
   step example_tableau example_trapezoidal example_randn (example_solver True) 0 [1, 2] 1
     = step example_tableau example_trapezoidal (\<lambda>k. 0) (example_solver True) 0 [1, 2] 1"
proof -
  have h: "trapezoidal_approx (example_solver True)"
    by (simp add: example_solver_def)
  show ?thesis
    by (rule conjI [OF h trapezoidal_mode_reproducible [OF h]])
qed

text \<open>
  C8. The property \<^verbatim>\<open>strong_order\<close> is the constant 1.5, for every solver object, also for
  every object the constructor builds from any configuration.
\<close>

theorem strong_order_constant:
  "strong_order self = 1.5 \<and> strong_order (init f g W options) = 1.5"
  by (simp add: strong_order_def)

text \<open>
  C9. \<^verbatim>\<open>step\<close> and the variant that evaluates the drift and the diffusion once per stage
  and keeps the values return the same result (or the same failure) on every input. On a
  run that returns, \<^verbatim>\<open>step\<close> calls each of the drift and the diffusion
  \<open>STAGES * (STAGES + 1) / 2\<close> times, the variant \<open>STAGES\<close> times.
\<close>

theorem step_reevaluates_stages:
  "snd (step_cached T cta randn self t0 y0 dt) = snd (step T cta randn self t0 y0 dt) \<and>
   (0 < dt \<and> (y0 \<noteq> [] \<or> zip (bm self (t0 + dt)) (bm self t0) = []) \<longrightarrow>
     (\<exists>tr trc y1.
        step T cta randn self t0 y0 dt = (tr, Inr (t0 + dt, y1)) \<and>
        step_cached T cta randn self t0 y0 dt = (trc, Inr (t0 + dt, y1)) \<and>
        f_calls tr = STAGES T * (STAGES T + 1) div 2 \<and>
        g_calls tr = STAGES T * (STAGES T + 1) div 2 \<and>
        f_calls trc = STAGES T \<and> g_calls trc = STAGES T))"
proof (intro conjI impI)
  show "snd (step_cached T cta randn self t0 y0 dt) = snd (step T cta randn self t0 y0 dt)"
    by (rule cached_same_result)
next
  assume hyp: "0 < dt \<and> (y0 \<noteq> [] \<or> zip (bm self (t0 + dt)) (bm self t0) = [])"
  then have dt: "0 < dt" and ok: "y0 \<noteq> [] \<or> zip (bm self (t0 + dt)) (bm self t0) = []"
    by blast+
  from integrals_succeed[OF ok] obtain tr0 I_k I_kk I_k0 I_kkk where
    eq: "stochastic_integrals cta randn self t0 y0 dt (sqrt dt) = (tr0, Inr (I_k, I_kk, I_k0, I_kkk))"
    by blast
  obtain H0 H1 y1 tr where
    st: "stages T self t0 y0 dt (sqrt dt) I_k I_kk I_k0 I_kkk tr0 = (H0, H1, y1, tr)"
    by (metis prod_cases4)
  obtain F G z1 trc where
    stc: "stages_cached T self t0 y0 dt (sqrt dt) I_k I_kk I_k0 I_kkk tr0 = (F, G, z1, trc)"
    by (metis prod_cases4)
  note oc = outer_cached[OF st[unfolded stages_def] stc[unfolded stages_cached_def]]
  note calls = outer_calls[OF st[unfolded stages_def]]
  have z: "z1 = y1" using oc by blast
  have c0: "f_calls tr0 = 0" "g_calls tr0 = 0" using integrals_calls[OF eq] by simp_all
  have "f_calls tr = STAGES T * (STAGES T + 1) div 2" "g_calls tr = STAGES T * (STAGES T + 1) div 2"
    using calls c0 by simp_all
  moreover have "f_calls trc = STAGES T" "g_calls trc = STAGES T"
    using oc c0 by simp_all
  moreover note step_unfold[OF dt eq st] step_cached_unfold[OF dt eq stc, unfolded z]
  ultimately show "\<exists>tr trc y1.
        step T cta randn self t0 y0 dt = (tr, Inr (t0 + dt, y1)) \<and>
        step_cached T cta randn self t0 y0 dt = (trc, Inr (t0 + dt, y1)) \<and>
        f_calls tr = STAGES T * (STAGES T + 1) div 2 \<and>
        g_calls tr = STAGES T * (STAGES T + 1) div 2 \<and>
        f_calls trc = STAGES T \<and> g_calls trc = STAGES T"
    by blast
qed

theorem step_reevaluates_stages_witness:
  "(0::real) < 1 \<and> [1, 2::real] \<noteq> [] \<and>
   snd (step_cached example_tableau example_trapezoidal example_randn (example_solver True) 0 [1, 2::real] 1) = snd (step example_tableau example_trapezoidal example_randn (example_solver True) 0 [1, 2::real] 1) \<and>
     (\<exists>tr trc y1.
        step example_tableau example_trapezoidal example_randn (example_solver True) 0 [1, 2::real] 1 = (tr, Inr (0 + 1, y1)) \<and>
        step_cached example_tableau example_trapezoidal example_randn (example_solver True) 0 [1, 2::real] 1 = (trc, Inr (0 + 1, y1)) \<and>
        f_calls tr = STAGES example_tableau * (STAGES example_tableau + 1) div 2 \<and>
        g_calls tr = STAGES example_tableau * (STAGES example_tableau + 1) div 2 \<and>
        f_calls trc = STAGES example_tableau \<and> g_calls trc = STAGES example_tableau)"
proof -
  have h1: "(0::real) < 1" by simp
  have h0: "[1, 2::real] \<noteq> []" by simp
  note t = step_reevaluates_stages
    [of example_tableau example_trapezoidal example_randn "example_solver True" 0 "[1, 2]" 1]
  show ?thesis
    using h1 h0 t by blast
qed

text \<open>
  C10, in the form that holds. For \<open>dt > 0\<close>: when \<open>y0\<close> is empty and the path has a block at both
  times, \<^verbatim>\<open>step\<close> fails with \<^verbatim>\<open>IndexError\<close> (from \<^verbatim>\<open>y0[0]\<close>) after the two calls of the
  path. Otherwise it returns, whatever the numbers of blocks of \<open>y0\<close>, of the path and of
  the tuples the drift and the diffusion return, and \<open>y1\<close> has as many blocks as the
  shortest of \<open>y0\<close> and, at every stage, the results of the drift and the diffusion and the
  four integrals; \<open>I_k\<close> has as many blocks as the shorter of the two path values.
\<close>

theorem step_block_counts:
  assumes "0 < dt"
  shows "if y0 = [] \<and> zip (bm self (t0 + dt)) (bm self t0) \<noteq> []
     then step T cta randn self t0 y0 dt = ([Call_bm (t0 + dt), Call_bm t0], Inl IndexError)
     else (\<exists>tr0 I_k I_kk I_k0 I_kkk H0 H1 y1 tr.
       stochastic_integrals cta randn self t0 y0 dt (sqrt dt) = (tr0, Inr (I_k, I_kk, I_k0, I_kkk)) \<and>
       stages T self t0 y0 dt (sqrt dt) I_k I_kk I_k0 I_kkk tr0 = (H0, H1, y1, tr) \<and>
       step T cta randn self t0 y0 dt = (tr, Inr (t0 + dt, y1)) \<and>
       length I_k = min (length (bm self (t0 + dt))) (length (bm self t0)) \<and>
       length I_kk = length I_k \<and> length I_kkk = length I_k \<and>
       length I_k0 = (if trapezoidal_approx self
                      then length (cta (bm self) t0 y0 dt (sqrt dt)) else length I_k) \<and>
       length y1 = Min (insert (length y0)
            ((\<lambda>s. min (length (sde_f self (t0 + C0 T s * dt) (H0 ! s)))
                   (min (length (sde_g self (t0 + C1 T s * dt) (H1 ! s)))
                     (min (length I_k) (min (length I_kk) (min (length I_k0) (length I_kkk))))))
             ` {..<STAGES T})))"
proof (cases "y0 = [] \<and> zip (bm self (t0 + dt)) (bm self t0) \<noteq> []")
  case True
  then show ?thesis using step_index_error(1)[OF assms] by simp
next
  case False
  then have ok: "y0 \<noteq> [] \<or> zip (bm self (t0 + dt)) (bm self t0) = []" by blast
  from integrals_succeed[OF ok] obtain tr0 I_k I_kk I_k0 I_kkk where
    eq: "stochastic_integrals cta randn self t0 y0 dt (sqrt dt) = (tr0, Inr (I_k, I_kk, I_k0, I_kkk))"
    by blast
  obtain H0 H1 y1 tr where
    st: "stages T self t0 y0 dt (sqrt dt) I_k I_kk I_k0 I_kkk tr0 = (H0, H1, y1, tr)"
    by (metis prod_cases4)
  note fo = st[unfolded stages_def]
  have "\<exists>tr0 I_k I_kk I_k0 I_kkk H0 H1 y1 tr.
       stochastic_integrals cta randn self t0 y0 dt (sqrt dt) = (tr0, Inr (I_k, I_kk, I_k0, I_kkk)) \<and>
       stages T self t0 y0 dt (sqrt dt) I_k I_kk I_k0 I_kkk tr0 = (H0, H1, y1, tr) \<and>
       step T cta randn self t0 y0 dt = (tr, Inr (t0 + dt, y1)) \<and>
       length I_k = min (length (bm self (t0 + dt))) (length (bm self t0)) \<and>
       length I_kk = length I_k \<and> length I_kkk = length I_k \<and>
       length I_k0 = (if trapezoidal_approx self
                      then length (cta (bm self) t0 y0 dt (sqrt dt)) else length I_k) \<and>
       length y1 = Min (insert (length y0)
            ((\<lambda>s. min (length (sde_f self (t0 + C0 T s * dt) (H0 ! s)))
                   (min (length (sde_g self (t0 + C1 T s * dt) (H1 ! s)))
                     (min (length I_k) (min (length I_kk) (min (length I_k0) (length I_kkk))))))
             ` {..<STAGES T}))"
    using eq st step_unfold[OF assms eq st] integrals_lengths[OF eq] outer_length_y1[OF fo]
    by blast
  then show ?thesis using False by (simp only: if_False)
qed

theorem step_block_counts_witness:
  "(0::real) < 1 \<and>
   (if [1, 2, 3::real] = [] \<and> zip (bm (example_solver True) (0 + 1)) (bm (example_solver True) 0) \<noteq> []
     then step example_tableau example_trapezoidal example_randn (example_solver True) 0 [1, 2, 3::real] 1 = ([Call_bm (0 + 1), Call_bm 0], Inl IndexError)
     else (\<exists>tr0 I_k I_kk I_k0 I_kkk H0 H1 y1 tr.
       stochastic_integrals example_trapezoidal example_randn (example_solver True) 0 [1, 2, 3::real] 1 (sqrt 1) = (tr0, Inr (I_k, I_kk, I_k0, I_kkk)) \<and>
       stages example_tableau (example_solver True) 0 [1, 2, 3::real] 1 (sqrt 1) I_k I_kk I_k0 I_kkk tr0 = (H0, H1, y1, tr) \<and>
       step example_tableau example_trapezoidal example_randn (example_solver True) 0 [1, 2, 3::real] 1 = (tr, Inr (0 + 1, y1)) \<and>
       length I_k = min (length (bm (example_solver True) (0 + 1))) (length (bm (example_solver True) 0)) \<and>
       length I_kk = length I_k \<and> length I_kkk = length I_k \<and>
       length I_k0 = (if trapezoidal_approx (example_solver True)
                      then length (example_trapezoidal (bm (example_solver True)) 0 [1, 2, 3::real] 1 (sqrt 1)) else length I_k) \<and>
       length y1 = Min (insert (length [1, 2, 3::real])
            ((\<lambda>s. min (length (sde_f (example_solver True) (0 + C0 example_tableau s * 1) (H0 ! s)))
                   (min (length (sde_g (example_solver True) (0 + C1 example_tableau s * 1) (H1 ! s)))
                     (min (length I_k) (min (length I_kk) (min (length I_k0) (length I_kkk))))))
             ` {..<STAGES example_tableau}))))"
proof -
  have h1: "(0::real) < 1" by simp
  show ?thesis
    by (rule conjI [OF h1 step_block_counts [OF h1]])
qed

text \<open>
  C10 as stated fails: a state with no block and a path with two blocks is a mismatch of
  block counts on which \<^verbatim>\<open>step\<close> raises.
\<close>

theorem step_empty_state_counterexample:
  "step example_tableau example_trapezoidal example_randn (example_solver True) 0 [] 1
     = ([Call_bm 1, Call_bm 0], Inl IndexError)"
  by (simp add: step_def stochastic_integrals_def example_solver_def Let_def)

end
